(* ===== verification/Prelude.thy ===== *)
theory Prelude
  imports Main
begin

text \<open>
  Shared vocabulary of the model of \<^verbatim>\<open>src/zerodaynewsletter.py\<close>: the Python
  exceptions that can escape a function of the script, the result type \<open>exc + 'a\<close>
  with its bind, Python list indexing, and the Python string operations the script
  calls (\<^verbatim>\<open>str.strip\<close>, \<^verbatim>\<open>s[:n]\<close>, \<^verbatim>\<open>in\<close>, formatting of \<^verbatim>\<open>None\<close>).
  Python strings are modelled as \<open>string\<close>, one \<open>char\<close> per code point; the
  model covers the code points below 256 (Latin-1), which is what a HOL \<open>char\<close> holds.
\<close>

named_theorems py_simps "evaluation rules of the Python helpers of the model"

section \<open>Exceptions and results\<close>

text \<open>
  The exceptions the script can raise and that matter for its control flow.
  \<open>AttributeError\<close> is what \<^verbatim>\<open>None.xpath(...)\<close> raises when the fetcher gave up;
  \<open>ParserError\<close> is raised by \<^verbatim>\<open>lxml.html.fromstring\<close>; \<open>SlackApiError\<close> and
  \<open>ConnectionError\<close> by \<^verbatim>\<open>WebClient.chat_postMessage\<close>.
\<close>

datatype exc =
    IndexError
  | KeyError
  | AttributeError
  | ValueError
  | OverflowError
  | ParserError
  | SlackApiError
  | ConnectionError

type_synonym 'a result = "exc + 'a"

definition bindE :: "'a result \<Rightarrow> ('a \<Rightarrow> 'b result) \<Rightarrow> 'b result" where
  "bindE r f = (case r of Inl e \<Rightarrow> Inl e | Inr x \<Rightarrow> f x)"

section \<open>Python list indexing\<close>

text \<open>\<^verbatim>\<open>xs[i]\<close> for a non-negative index: \<open>IndexError\<close> out of range.\<close>

definition py_index :: "'a list \<Rightarrow> nat \<Rightarrow> 'a result" where
  "py_index xs i = (if i < length xs then Inr (xs ! i) else Inl IndexError)"

section \<open>Python strings\<close>

text \<open>
  \<^verbatim>\<open>str.isspace\<close> on the code points below 256: tab, line feed, vertical tab, form
  feed, carriage return, the four separators 0x1C to 0x1F, space, NEL (0x85) and
  no-break space (0xA0).
\<close>

definition py_isspace :: "char \<Rightarrow> bool" where
  "py_isspace c \<longleftrightarrow>
     of_char c \<in> {9, 10, 11, 12, 13, 28, 29, 30, 31, 32, 133, 160 :: nat}"

text \<open>\<^verbatim>\<open>str.strip()\<close>: leading, then trailing whitespace removed.\<close>

definition py_strip :: "string \<Rightarrow> string" where
  "py_strip s = rev (dropWhile py_isspace (rev (dropWhile py_isspace s)))"

text \<open>\<^verbatim>\<open>needle in hay\<close>, also XPath's \<^verbatim>\<open>contains(hay, needle)\<close>.\<close>

primrec py_contains :: "string \<Rightarrow> string \<Rightarrow> bool" where
  "py_contains [] needle \<longleftrightarrow> needle = []"
| "py_contains (c # cs) needle \<longleftrightarrow> take (length needle) (c # cs) = needle \<or> py_contains cs needle"

text \<open>An f-string renders \<^verbatim>\<open>None\<close> as the text \<^verbatim>\<open>None\<close>.\<close>

fun py_fmt_opt :: "string option \<Rightarrow> string" where
  "py_fmt_opt None = ''None''"
| "py_fmt_opt (Some s) = s"

section \<open>Lemmas on results, indexing and strings\<close>

lemma bindE_Inl [simp, py_simps]: "bindE (Inl e) f = Inl e"
  by (simp add: bindE_def)

lemma bindE_Inr [simp, py_simps]: "bindE (Inr x) f = f x"
  by (simp add: bindE_def)

lemma bindE_eq_Inr_iff:
  "bindE r f = Inr y \<longleftrightarrow> (\<exists>x. r = Inr x \<and> f x = Inr y)"
  by (cases r) simp_all

lemma bindE_eq_Inl_iff:
  "bindE r f = Inl e \<longleftrightarrow> r = Inl e \<or> (\<exists>x. r = Inr x \<and> f x = Inl e)"
  by (cases r) simp_all

lemma py_index_in_range [simp, py_simps]: "i < length xs \<Longrightarrow> py_index xs i = Inr (xs ! i)"
  by (simp add: py_index_def)

lemma py_index_out_of_range [simp, py_simps]:
  "length xs \<le> i \<Longrightarrow> py_index xs i = Inl IndexError"
  by (simp add: py_index_def)

lemma py_index_Cons [py_simps]:
  "py_index (x # xs) 0 = Inr x" "py_index (x # xs) (Suc i) = py_index xs i"
  by (simp_all add: py_index_def)

lemma py_index_Nil [py_simps]: "py_index [] i = Inl IndexError"
  by (simp add: py_index_def)

lemma dropWhile_hd_not:
  "dropWhile P xs \<noteq> [] \<Longrightarrow> \<not> P (hd (dropWhile P xs))"
  by (induction xs) auto

lemma dropWhile_idem [simp]: "dropWhile P (dropWhile P xs) = dropWhile P xs"
  by (induction xs) auto

lemma dropWhile_no_hd: "xs = [] \<or> \<not> P (hd xs) \<Longrightarrow> dropWhile P xs = xs"
  by (cases xs) auto

lemma py_contains_iff: "py_contains hay needle \<longleftrightarrow> (\<exists>ps ss. hay = ps @ needle @ ss)"
proof (induction hay)
  case Nil
  then show ?case by simp
next
  case (Cons c cs)
  have "take (length needle) (c # cs) = needle \<longleftrightarrow> (\<exists>ss. c # cs = needle @ ss)"
    by (metis append_eq_conv_conj)
  moreover have "(\<exists>ps ss. c # cs = ps @ needle @ ss) \<longleftrightarrow>
      (\<exists>ss. c # cs = needle @ ss) \<or> (\<exists>ps ss. cs = ps @ needle @ ss)"
    by (auto simp: Cons_eq_append_conv)
  ultimately show ?case using Cons.IH by simp
qed

end
