(* ===== verification/Dom.thy ===== *)
theory Dom
  imports Prelude
begin

text \<open>
  The parsed page as \<^verbatim>\<open>lxml.html\<close> presents it to the script: a tree of elements
  (tag, attributes, children) and text. A text node stands for the \<^verbatim>\<open>text\<close> and
  \<^verbatim>\<open>tail\<close> strings lxml keeps on elements; comments and processing instructions are
  left out, since no query of the script selects them. Then the XPath and ElementPath
  steps the script uses, each as a function on that tree:
  \<^item> \<^verbatim>\<open>//tag[p]\<close> from the root (\<open>sel_all\<close>), \<^verbatim>\<open>.//tag[p]\<close> (\<open>sel_desc\<close>),
    \<^verbatim>\<open>./tag\<close> (\<open>sel_child\<close>), all in document order;
  \<^item> the predicates \<^verbatim>\<open>@k="v"\<close> (\<open>attr_eq\<close>) and \<^verbatim>\<open>contains(@k, "v")\<close>
    (\<open>attr_contains\<close>);
  \<^item> \<^verbatim>\<open>.//a/@href\<close> (\<open>desc_hrefs\<close>), \<^verbatim>\<open>.find('.//a')\<close> (\<open>find_desc\<close>),
    \<^verbatim>\<open>.attrib['href']\<close> (\<open>attrib_get\<close>) and \<^verbatim>\<open>.text_content()\<close>.
\<close>

datatype node =
    Element string "(string \<times> string) list" "node list"
  | Text string

section \<open>Tree traversal\<close>

text \<open>Proper descendants in document order (pre-order), the XPath \<^verbatim>\<open>descendant\<close> axis.\<close>

fun descendants :: "node \<Rightarrow> node list" where
  "descendants (Text s) = []"
| "descendants (Element t as cs) = concat (map (\<lambda>c. c # descendants c) cs)"

fun children :: "node \<Rightarrow> node list" where
  "children (Text s) = []"
| "children (Element t as cs) = cs"

text \<open>\<^verbatim>\<open>text_content()\<close>: all text of the subtree, in document order.\<close>

fun text_content :: "node \<Rightarrow> string" where
  "text_content (Text s) = s"
| "text_content (Element t as cs) = concat (map text_content cs)"

fun get_attr :: "node \<Rightarrow> string \<Rightarrow> string option" where
  "get_attr (Text s) k = None"
| "get_attr (Element t as cs) k = map_of as k"

fun is_tag :: "string \<Rightarrow> node \<Rightarrow> bool" where
  "is_tag tg (Text s) = False"
| "is_tag tg (Element t as cs) = (t = tg)"

section \<open>XPath and ElementPath steps\<close>

definition attr_eq :: "string \<Rightarrow> string \<Rightarrow> node \<Rightarrow> bool" where
  "attr_eq k v m \<longleftrightarrow> get_attr m k = Some v"

text \<open>\<^verbatim>\<open>contains(@k, v)\<close>: a missing attribute converts to the empty string.\<close>

definition attr_contains :: "string \<Rightarrow> string \<Rightarrow> node \<Rightarrow> bool" where
  "attr_contains k v m \<longleftrightarrow> py_contains (case get_attr m k of None \<Rightarrow> [] | Some s \<Rightarrow> s) v"

definition sel_all :: "string \<Rightarrow> (node \<Rightarrow> bool) \<Rightarrow> node \<Rightarrow> node list" where
  "sel_all tg p n = filter (\<lambda>m. is_tag tg m \<and> p m) (n # descendants n)"

definition sel_desc :: "string \<Rightarrow> (node \<Rightarrow> bool) \<Rightarrow> node \<Rightarrow> node list" where
  "sel_desc tg p n = filter (\<lambda>m. is_tag tg m \<and> p m) (descendants n)"

definition sel_child :: "string \<Rightarrow> node \<Rightarrow> node list" where
  "sel_child tg n = filter (is_tag tg) (children n)"

definition desc_hrefs :: "node \<Rightarrow> string list" where
  "desc_hrefs n =
     List.map_filter (\<lambda>m. if is_tag ''a'' m then get_attr m ''href'' else None) (descendants n)"

definition find_desc :: "string \<Rightarrow> node \<Rightarrow> node option" where
  "find_desc tg n = List.find (is_tag tg) (descendants n)"

definition attrib_get :: "node \<Rightarrow> string \<Rightarrow> string result" where
  "attrib_get m k = (case get_attr m k of None \<Rightarrow> Inl KeyError | Some v \<Rightarrow> Inr v)"

lemmas dom_query_defs [py_simps] =
  attr_eq_def attr_contains_def sel_all_def sel_desc_def sel_child_def desc_hrefs_def
  find_desc_def attrib_get_def

section \<open>Lemmas\<close>

lemma descendants_Element_append:
  "descendants (Element t as (cs @ ds)) =
   descendants (Element t as cs) @ descendants (Element t as ds)"
  by simp

lemma children_sub_descendants: "set (children n) \<subseteq> set (descendants n)"
  by (cases n) auto

lemma descendants_trans:
  "m \<in> set (descendants n) \<Longrightarrow> set (descendants m) \<subseteq> set (descendants n)"
proof (induction n)
  case (Element t as cs)
  then show ?case by fastforce
qed simp

lemma sel_desc_sound:
  "m \<in> set (sel_desc tg p n) \<Longrightarrow> m \<in> set (descendants n) \<and> is_tag tg m \<and> p m"
  by (simp add: sel_desc_def)

lemma sel_child_sound: "m \<in> set (sel_child tg n) \<Longrightarrow> m \<in> set (children n) \<and> is_tag tg m"
  by (simp add: sel_child_def)

lemma desc_hrefs_Nil_iff:
  "desc_hrefs n = [] \<longleftrightarrow>
   (\<forall>m \<in> set (descendants n). is_tag ''a'' m \<longrightarrow> get_attr m ''href'' = None)"
  by (induction "descendants n") (auto simp: desc_hrefs_def List.map_filter_def filter_empty_conv)

lemma find_desc_None_iff:
  "find_desc tg n = None \<longleftrightarrow> (\<forall>m \<in> set (descendants n). \<not> is_tag tg m)"
  by (auto simp: find_desc_def find_None_iff)

lemma attrib_get_Inr_iff: "attrib_get m k = Inr v \<longleftrightarrow> get_attr m k = Some v"
  by (simp add: attrib_get_def split: option.splits)

lemma attrib_get_Inl_iff: "attrib_get m k = Inl e \<longleftrightarrow> get_attr m k = None \<and> e = KeyError"
  by (auto simp: attrib_get_def split: option.splits)

end
