(* ===== verification/Dates.thy ===== *)
theory Dates
  imports Prelude
begin

text \<open>
  The date handling of \<^verbatim>\<open>retrieve_advisories\<close> (\<^verbatim>\<open>src/zerodaynewsletter.py\<close>, lines
  60, 61, 67 and 68): \<^verbatim>\<open>datetime.strptime(s, '%Y-%m-%d')\<close>, \<^verbatim>\<open>datetime.now()\<close>,
  \<^verbatim>\<open>now - timedelta(hours=24)\<close> and the comparison of two datetimes.

  \<^verbatim>\<open>strptime\<close> is modelled the way CPython's \<^verbatim>\<open>_strptime\<close> runs it: the format
  becomes the regular expression
  \<^verbatim>\<open>(?P<Y>\d\d\d\d)-(?P<m>1[0-2]|0[1-9]|[1-9])-(?P<d>3[0-1]|[1-2]\d|0[1-9]|[1-9]| [1-9])\<close>,
  which is matched at the start of the string (\<^verbatim>\<open>re.match\<close>); the first match in
  backtracking order is taken, and text left after it is a \<open>ValueError\<close>
  ("unconverted data remains"), as is a date that \<^verbatim>\<open>datetime\<close> refuses (year 0, a day
  past the end of the month). Each regular-expression piece is a function from the input to
  the list of its matches with the rest of the input, in the order the regex engine tries
  them, so the first element of a sequence of pieces is the engine's match.

  A naive \<^verbatim>\<open>datetime\<close> is modelled by the number of microseconds since
  0001-01-01 00:00 (its resolution is one microsecond), an \<open>int\<close>; the values
  \<^verbatim>\<open>datetime\<close> can hold are \<open>0 \<le> t < dt_max\<close>, and subtraction that leaves this range
  raises \<open>OverflowError\<close>.
\<close>

record date =
  year :: nat
  month :: nat
  day :: nat

section \<open>Calendar (the proleptic Gregorian calendar of \<^verbatim>\<open>datetime\<close>)\<close>

definition is_leap :: "nat \<Rightarrow> bool" where
  "is_leap y \<longleftrightarrow> y mod 4 = 0 \<and> (y mod 100 \<noteq> 0 \<or> y mod 400 = 0)"

definition days_in_month :: "nat \<Rightarrow> nat \<Rightarrow> nat" where
  "days_in_month y m =
     (if m = 2 \<and> is_leap y then 29
      else [0, 31, 28, 31, 30, 31, 30, 31, 31, 30, 31, 30, 31] ! m)"

definition days_before_year :: "nat \<Rightarrow> nat" where
  "days_before_year y = (let z = y - 1 in z * 365 + z div 4 - z div 100 + z div 400)"

definition days_before_month :: "nat \<Rightarrow> nat \<Rightarrow> nat" where
  "days_before_month y m =
     [0, 0, 31, 59, 90, 120, 151, 181, 212, 243, 273, 304, 334] ! m
     + (if 2 < m \<and> is_leap y then 1 else 0)"

text \<open>\<^verbatim>\<open>date.toordinal()\<close>: 0001-01-01 is day 1.\<close>

definition ymd2ord :: "date \<Rightarrow> nat" where
  "ymd2ord d = days_before_year (year d) + days_before_month (year d) (month d) + day d"

text \<open>The checks of \<^verbatim>\<open>datetime(year, month, day)\<close> (\<^verbatim>\<open>MINYEAR = 1\<close>, \<^verbatim>\<open>MAXYEAR = 9999\<close>).\<close>

definition valid_date :: "date \<Rightarrow> bool" where
  "valid_date d \<longleftrightarrow>
     1 \<le> year d \<and> year d \<le> 9999 \<and> 1 \<le> month d \<and> month d \<le> 12
     \<and> 1 \<le> day d \<and> day d \<le> days_in_month (year d) (month d)"

definition check_date_fields :: "nat \<Rightarrow> nat \<Rightarrow> nat \<Rightarrow> date result" where
  "check_date_fields y m dd =
     (let d = \<lparr>year = y, month = m, day = dd\<rparr> in
      if valid_date d then Inr d else Inl ValueError)"

section \<open>The regular expression of \<^verbatim>\<open>%Y-%m-%d\<close>\<close>

definition digit_val :: "char \<Rightarrow> nat option" where
  "digit_val c =
     (let k = (of_char c :: nat) in if 48 \<le> k \<and> k \<le> 57 then Some (k - 48) else None)"

text \<open>\<^verbatim>\<open>\d\d\d\d\<close> (on code points below 256, \<^verbatim>\<open>\d\<close> is \<^verbatim>\<open>[0-9]\<close>).\<close>

fun re_Y :: "string \<Rightarrow> (nat \<times> string) list" where
  "re_Y (a # b # c # e # rest) =
     (case (digit_val a, digit_val b, digit_val c, digit_val e) of
        (Some x1, Some x2, Some x3, Some x4) \<Rightarrow> [(1000 * x1 + 100 * x2 + 10 * x3 + x4, rest)]
      | _ \<Rightarrow> [])"
| "re_Y _ = []"

text \<open>A two-character alternative such as \<^verbatim>\<open>1[0-2]\<close>: first digit in \<open>P\<close>, second in \<open>Q\<close>.\<close>

fun re_two :: "(nat \<Rightarrow> bool) \<Rightarrow> (nat \<Rightarrow> bool) \<Rightarrow> string \<Rightarrow> (nat \<times> string) list" where
  "re_two P Q (a # b # rest) =
     (case (digit_val a, digit_val b) of
        (Some x, Some y) \<Rightarrow> if P x \<and> Q y then [(10 * x + y, rest)] else []
      | _ \<Rightarrow> [])"
| "re_two P Q _ = []"

text \<open>A one-digit alternative \<^verbatim>\<open>[1-9]\<close>, and \<^verbatim>\<open> [1-9]\<close> with its leading space.\<close>

fun re_one :: "(nat \<Rightarrow> bool) \<Rightarrow> string \<Rightarrow> (nat \<times> string) list" where
  "re_one P (a # rest) =
     (case digit_val a of Some x \<Rightarrow> if P x then [(x, rest)] else [] | None \<Rightarrow> [])"
| "re_one P [] = []"

fun re_space_one :: "(nat \<Rightarrow> bool) \<Rightarrow> string \<Rightarrow> (nat \<times> string) list" where
  "re_space_one P (a # rest) = (if a = CHR '' '' then re_one P rest else [])"
| "re_space_one P [] = []"

fun re_lit :: "char \<Rightarrow> string \<Rightarrow> string list" where
  "re_lit c (a # rest) = (if a = c then [rest] else [])"
| "re_lit c [] = []"

text \<open>\<^verbatim>\<open>(?P<m>1[0-2]|0[1-9]|[1-9])\<close>\<close>

definition re_m :: "string \<Rightarrow> (nat \<times> string) list" where
  "re_m s =
     re_two (\<lambda>x. x = 1) (\<lambda>y. y \<le> 2) s @ re_two (\<lambda>x. x = 0) (\<lambda>y. 1 \<le> y) s
     @ re_one (\<lambda>x. 1 \<le> x) s"

text \<open>\<^verbatim>\<open>(?P<d>3[0-1]|[1-2]\d|0[1-9]|[1-9]| [1-9])\<close>\<close>

definition re_d :: "string \<Rightarrow> (nat \<times> string) list" where
  "re_d s =
     re_two (\<lambda>x. x = 3) (\<lambda>y. y \<le> 1) s @ re_two (\<lambda>x. 1 \<le> x \<and> x \<le> 2) (\<lambda>y. True) s
     @ re_two (\<lambda>x. x = 0) (\<lambda>y. 1 \<le> y) s @ re_one (\<lambda>x. 1 \<le> x) s
     @ re_space_one (\<lambda>x. 1 \<le> x) s"

text \<open>All matches of the whole pattern at the start of \<open>s\<close>, in backtracking order.\<close>

definition re_ymd :: "string \<Rightarrow> (nat \<times> nat \<times> nat \<times> string) list" where
  "re_ymd s =
     [(y, m, dd, r5). (y, r1) \<leftarrow> re_Y s, r2 \<leftarrow> re_lit CHR ''-'' r1, (m, r3) \<leftarrow> re_m r2,
        r4 \<leftarrow> re_lit CHR ''-'' r3, (dd, r5) \<leftarrow> re_d r4]"

text \<open>\<^verbatim>\<open>datetime.strptime(s, '%Y-%m-%d')\<close>, the date part of its result.\<close>

definition strptime_ymd :: "string \<Rightarrow> date result" where
  "strptime_ymd s =
     (case re_ymd s of
        [] \<Rightarrow> Inl ValueError
      | (y, m, dd, rest) # _ \<Rightarrow> if rest \<noteq> [] then Inl ValueError else check_date_fields y m dd)"

section \<open>Datetimes as microseconds\<close>

type_synonym datetime = int

definition day_us :: int where
  "day_us = 86400000000"

text \<open>One past the largest value, 9999-12-31 23:59:59.999999 (ordinal 3652059).\<close>

definition dt_max :: int where
  "dt_max = 3652059 * day_us"

text \<open>The datetime \<^verbatim>\<open>strptime\<close> returns: midnight of the parsed date.\<close>

definition midnight :: "date \<Rightarrow> datetime" where
  "midnight d = (int (ymd2ord d) - 1) * day_us"

text \<open>\<^verbatim>\<open>t - timedelta(microseconds=td)\<close>; \<^verbatim>\<open>timedelta(hours=24)\<close> is \<open>day_us\<close>.\<close>

definition dt_sub :: "datetime \<Rightarrow> int \<Rightarrow> datetime result" where
  "dt_sub t td = (let r = t - td in if 0 \<le> r \<and> r < dt_max then Inr r else Inl OverflowError)"

section \<open>Formatting (\<^verbatim>\<open>date.isoformat()\<close>)\<close>

fun pad_dec :: "nat \<Rightarrow> nat \<Rightarrow> string" where
  "pad_dec 0 n = []"
| "pad_dec (Suc k) n = pad_dec k (n div 10) @ [char_of (48 + n mod 10)]"

definition date_iso :: "date \<Rightarrow> string" where
  "date_iso d = pad_dec 4 (year d) @ ''-'' @ pad_dec 2 (month d) @ ''-'' @ pad_dec 2 (day d)"

text \<open>Python's \<^verbatim>\<open>str\<close> of a month or day number: no leading zero.\<close>

definition dec_short :: "nat \<Rightarrow> string" where
  "dec_short n = (if n < 10 then pad_dec 1 n else pad_dec 2 n)"

text \<open>The spellings \<^verbatim>\<open>%m\<close> and \<^verbatim>\<open>%d\<close> match for a month or a day number.\<close>

definition month_spellings :: "nat \<Rightarrow> string list" where
  "month_spellings m = [pad_dec 2 m, dec_short m]"

definition day_spellings :: "nat \<Rightarrow> string list" where
  "day_spellings dd = [pad_dec 2 dd, dec_short dd] @ (if dd < 10 then [CHR '' '' # dec_short dd] else [])"

lemmas strptime_eval =
  strptime_ymd_def re_ymd_def re_m_def re_d_def digit_val_def check_date_fields_def valid_date_def
  days_in_month_def is_leap_def

section \<open>Lemmas: parsing\<close>

lemma digit_val_char_of [simp]:
  "n < 256 \<Longrightarrow> digit_val (char_of n) = (if 48 \<le> n \<and> n \<le> 57 then Some (n - 48) else None)"
  by (simp add: digit_val_def)

lemma pad_dec_numeral:
  "pad_dec (numeral k) n = pad_dec (pred_numeral k) (n div 10) @ [char_of (48 + n mod 10)]"
  by (metis pad_dec.simps(2) numeral_eq_Suc)

lemma pad_dec_2: "pad_dec 2 n = [char_of (48 + n div 10 mod 10), char_of (48 + n mod 10)]"
  by (simp add: pad_dec_numeral)

lemma pad_dec_4:
  "pad_dec 4 n = [char_of (48 + n div 1000 mod 10), char_of (48 + n div 100 mod 10),
                  char_of (48 + n div 10 mod 10), char_of (48 + n mod 10)]"
  by (simp add: pad_dec_numeral flip: div_mult2_eq)

lemma four_digits:
  assumes "y < 10000"
  shows "
  1000 * (y div 1000) + 100 * (y div 100 mod 10) + 10 * (y div 10 mod 10) + y mod 10 = (y::nat)"
proof -
  have "(y div 100) div 10 = y div 1000" "(y div 10) div 10 = y div 100"
    by (simp_all flip: div_mult2_eq)
  then show ?thesis
    using div_mult_mod_eq [of y 10] div_mult_mod_eq [of "y div 10" 10]
      div_mult_mod_eq [of "y div 100" 10] by linarith
qed

lemma mod_10_le_9: "n mod 10 \<le> (9::nat)"
  by presburger

lemma re_Y_pad:
  assumes "y < 10000"
  shows "re_Y (pad_dec 4 y @ r) = [(y, r)]"
  using assms four_digits [OF assms] by (simp add: pad_dec_4 mod_10_le_9)

lemma re_m_pad:
  assumes "1 \<le> m" "m \<le> 12"
  shows "\<exists>xs. re_m (pad_dec 2 m @ r) = (m, r) # xs"
proof (cases "m < 10")
  case True
  then have "m div 10 = 0" by simp
  with True assms show ?thesis by (simp add: re_m_def pad_dec_2)
next
  case False
  with assms have "m div 10 = 1" "m mod 10 \<le> 2" "10 + m mod 10 = m" by presburger+
  then show ?thesis by (simp add: re_m_def pad_dec_2)
qed

lemma re_d_pad:
  assumes "1 \<le> dd" "dd \<le> 31"
  shows "\<exists>xs. re_d (pad_dec 2 dd @ r) = (dd, r) # xs"
proof -
  consider "dd < 10" | "10 \<le> dd" "dd < 30" | "30 \<le> dd" by linarith
  then show ?thesis
  proof cases
    case 1
    then have "dd div 10 = 0" by simp
    with 1 assms show ?thesis by (simp add: re_d_def pad_dec_2)
  next
    case 2
    then have "1 \<le> dd div 10" "dd div 10 \<le> 2" "10 * (dd div 10) + dd mod 10 = dd" by presburger+
    then show ?thesis by (simp add: re_d_def pad_dec_2)
  next
    case 3
    with assms have "dd div 10 = 3" "dd mod 10 \<le> 1" "30 + dd mod 10 = dd" by presburger+
    then show ?thesis by (simp add: re_d_def pad_dec_2)
  qed
qed

lemma re_m_short:
  assumes "1 \<le> m" "m \<le> 12"
  shows "\<exists>xs. re_m (dec_short m @ CHR ''-'' # r) = (m, CHR ''-'' # r) # xs"
proof (cases "m < 10")
  case True
  with assms show ?thesis by (simp add: dec_short_def re_m_def digit_val_def)
next
  case False
  then show ?thesis using re_m_pad [OF assms, of "CHR ''-'' # r"] by (simp add: dec_short_def)
qed

lemma re_d_short:
  assumes "1 \<le> dd" "dd \<le> 31"
  shows "\<exists>xs. re_d (dec_short dd) = (dd, []) # xs"
proof (cases "dd < 10")
  case True
  with assms show ?thesis by (simp add: dec_short_def re_d_def digit_val_def)
next
  case False
  then show ?thesis using re_d_pad [OF assms, of "[]"] by (simp add: dec_short_def)
qed

lemma digit_val_Some: "Some x = digit_val c \<Longrightarrow> x \<le> 9 \<and> c = char_of (48 + x)"
  by (auto simp: digit_val_def Let_def split: if_splits)

lemma pad_dec_digit:
  "y \<le> 9 \<Longrightarrow> pad_dec (numeral k) (10 * q + y) = pad_dec (pred_numeral k) q @ [char_of (48 + y)]"
  by (simp add: pad_dec_numeral)

lemma pad_dec_1_digit: "x \<le> 9 \<Longrightarrow> pad_dec 1 x = [char_of (48 + x)]"
  by simp

lemma pad_dec_2_digits:
  "x \<le> 9 \<Longrightarrow> y \<le> 9 \<Longrightarrow> pad_dec 2 (10 * x + y) = [char_of (48 + x), char_of (48 + y)]"
  using pad_dec_digit [of y "num.Bit0 num.One" x] by (simp add: pad_dec_1_digit)

lemma pad_dec_4_digits:
  assumes "x1 \<le> 9" "x2 \<le> 9" "x3 \<le> 9" "x4 \<le> 9"
  shows "pad_dec 4 (1000 * x1 + 100 * x2 + 10 * x3 + x4) =
    [char_of (48 + x1), char_of (48 + x2), char_of (48 + x3), char_of (48 + x4)]"
proof -
  have e: "1000 * x1 + 100 * x2 + 10 * x3 + x4 = 10 * (10 * (10 * x1 + x2) + x3) + x4"
    by simp
  have "pad_dec 4 (10 * (10 * (10 * x1 + x2) + x3) + x4) =
      pad_dec 3 (10 * (10 * x1 + x2) + x3) @ [char_of (48 + x4)]"
    using assms(4) pad_dec_digit [of x4 "num.Bit0 (num.Bit0 num.One)" "10 * (10 * x1 + x2) + x3"] by simp
  also have "pad_dec 3 (10 * (10 * x1 + x2) + x3) = pad_dec 2 (10 * x1 + x2) @ [char_of (48 + x3)]"
    using assms(3) pad_dec_digit [of x3 "num.Bit1 num.One" "10 * x1 + x2"] by simp
  finally show ?thesis using assms by (simp only: e pad_dec_2_digits) simp
qed

lemma re_one_sound:
  "(v, r) \<in> set (re_one P s) \<Longrightarrow> P v \<and> v \<le> 9 \<and> s = pad_dec 1 v @ r"
  by (induction P s rule: re_one.induct)
    (auto split: option.split_asm if_splits dest!: digit_val_Some simp: pad_dec_1_digit)

lemma re_two_sound:
  "(v, r) \<in> set (re_two P Q s) \<Longrightarrow>
     \<exists>x y. P x \<and> Q y \<and> x \<le> 9 \<and> y \<le> 9 \<and> v = 10 * x + y \<and> s = pad_dec 2 v @ r"
  by (induction P Q s rule: re_two.induct)
    (auto split: option.split_asm if_splits dest!: digit_val_Some simp: pad_dec_2_digits)

lemma re_Y_sound:
  "(y, r) \<in> set (re_Y s) \<Longrightarrow> y < 10000 \<and> s = pad_dec 4 y @ r"
  by (induction s rule: re_Y.induct)
    (auto split: option.split_asm dest!: digit_val_Some simp: pad_dec_4_digits)

lemma re_space_one_sound:
  "(v, r) \<in> set (re_space_one P s) \<Longrightarrow> P v \<and> v \<le> 9 \<and> s = CHR '' '' # pad_dec 1 v @ r"
  by (induction P s rule: re_space_one.induct) (auto split: if_splits dest!: re_one_sound)

lemma re_lit_sound: "r \<in> set (re_lit c s) \<Longrightarrow> s = c # r"
  by (induction c s rule: re_lit.induct) (auto split: if_splits)

lemma re_m_sound:
  "(m, r) \<in> set (re_m s) \<Longrightarrow> \<exists>p\<in>set (month_spellings m). s = p @ r"
  by (auto simp: re_m_def month_spellings_def dec_short_def dest!: re_two_sound re_one_sound)

lemma re_d_sound:
  "(dd, r) \<in> set (re_d s) \<Longrightarrow> \<exists>p\<in>set (day_spellings dd). s = p @ r"
  by (auto simp: re_d_def day_spellings_def dec_short_def
      dest!: re_two_sound re_one_sound re_space_one_sound)

lemma re_ymd_sound:
  "(y, m, dd, r) \<in> set (re_ymd s) \<Longrightarrow>
     \<exists>ms ds. ms \<in> set (month_spellings m) \<and> ds \<in> set (day_spellings dd) \<and>
       s = pad_dec 4 y @ ''-'' @ ms @ ''-'' @ ds @ r"
  by (fastforce simp: re_ymd_def dest!: re_Y_sound re_lit_sound re_m_sound re_d_sound)

lemma strptime_ymd_Inl: "strptime_ymd s = Inl e \<Longrightarrow> e = ValueError"
  by (auto simp: strptime_ymd_def check_date_fields_def Let_def
      split: list.splits if_splits prod.splits)

lemma days_in_month_le_31: "m \<le> 12 \<Longrightarrow> days_in_month y m \<le> 31"
  by (auto simp: days_in_month_def le_Suc_eq numeral_eq_Suc)

section \<open>Lemmas: the comparison with \<^verbatim>\<open>now - timedelta(hours=24)\<close>\<close>

lemma window_arith:
  fixes D q t k :: int
  assumes "0 < t" "t < D"
  shows "q * D + t - D \<le> (k - 1) * D \<longleftrightarrow> q + 1 \<le> k"
proof -
  have eq: "(k - 1) * D - (q * D + t - D) = (k - q) * D - t"
    by (simp add: algebra_simps)
  have "t \<le> (k - q) * D \<longleftrightarrow> 1 \<le> k - q"
  proof
    assume le: "t \<le> (k - q) * D"
    show "1 \<le> k - q"
    proof (rule ccontr)
      assume "\<not> 1 \<le> k - q"
      then have "(k - q) * D \<le> 0"
        using assms by (simp add: mult_nonpos_nonneg)
      with assms le show False by linarith
    qed
  next
    assume "1 \<le> k - q"
    then have "1 * D \<le> (k - q) * D"
      using assms by (intro mult_right_mono) auto
    with assms show "t \<le> (k - q) * D" by linarith
  qed
  with eq show ?thesis by linarith
qed

lemma day_us_pos [simp]: "0 < day_us"
  by (simp add: day_us_def)

lemma window:
  assumes "0 < now mod day_us"
  shows "now - day_us \<le> midnight d \<longleftrightarrow> now div day_us + 1 \<le> int (ymd2ord d)"
proof -
  have "now mod day_us < day_us"
    by simp
  then show ?thesis
    using window_arith [where D = day_us and q = "now div day_us" and k = "int (ymd2ord d)",
        OF assms]
    by (simp add: midnight_def div_mult_mod_eq)
qed

section \<open>Properties of \<^verbatim>\<open>strptime\<close>\<close>

text \<open>
  C24: round trip. On every date \<^verbatim>\<open>datetime\<close> accepts, parsing the ISO text
  \<^verbatim>\<open>YYYY-MM-DD\<close> of the date with \<^verbatim>\<open>strptime(s, '%Y-%m-%d')\<close> gives the date back.
\<close>

theorem strptime_date_iso:
  assumes "valid_date d"
  shows "strptime_ymd (date_iso d) = Inr d"
proof -
  from assms have y: "year d < 10000" and m: "1 \<le> month d" "month d \<le> 12"
    and dd: "1 \<le> day d" "day d \<le> 31"
    using days_in_month_le_31 [of "month d" "year d"] by (auto simp: valid_date_def)
  obtain xs where xs: "re_m (pad_dec 2 (month d) @ ''-'' @ pad_dec 2 (day d)) =
      (month d, ''-'' @ pad_dec 2 (day d)) # xs"
    using re_m_pad [OF m] by blast
  obtain ys where ys: "re_d (pad_dec 2 (day d) @ []) = (day d, []) # ys"
    using re_d_pad [OF dd] by blast
  have "\<exists>zs. re_ymd (date_iso d) = (year d, month d, day d, []) # zs"
    using y xs ys by (simp add: re_ymd_def date_iso_def re_Y_pad)
  moreover have "check_date_fields (year d) (month d) (day d) = Inr d"
    using assms by (cases d) (simp add: check_date_fields_def)
  ultimately show ?thesis by (auto simp: strptime_ymd_def)
qed

theorem strptime_date_iso_witness:
  "strptime_ymd (date_iso \<lparr>year = 2024, month = 2, day = 29\<rparr>) = Inr \<lparr>year = 2024, month = 2, day = 29\<rparr>"
  using strptime_date_iso [of "\<lparr>year = 2024, month = 2, day = 29\<rparr>"]
  by (simp add: valid_date_def days_in_month_def is_leap_def)

text \<open>
  C25: soundness of the parser. A date that \<^verbatim>\<open>strptime(s, '%Y-%m-%d')\<close> returns
  is a valid date (year in 1..9999, month in 1..12, day within its month, leap years
  counted), and the whole text \<open>s\<close> spells exactly that date: four digits of its year, a
  dash, one of the spellings \<^verbatim>\<open>%m\<close> matches for its month, a dash, one of the spellings
  \<^verbatim>\<open>%d\<close> matches for its day, and nothing after it.
\<close>

theorem strptime_ymd_valid:
  assumes "strptime_ymd s = Inr d"
  shows "valid_date d \<and>
    (\<exists>ms ds. ms \<in> set (month_spellings (month d)) \<and> ds \<in> set (day_spellings (day d)) \<and>
       s = pad_dec 4 (year d) @ ''-'' @ ms @ ''-'' @ ds)"
proof -
  obtain y m dd ts where r: "re_ymd s = (y, m, dd, []) # ts" and c: "check_date_fields y m dd = Inr d"
    using assms by (auto simp: strptime_ymd_def split: list.splits if_splits)
  from c have d: "d = \<lparr>year = y, month = m, day = dd\<rparr>" and v: "valid_date d"
    by (auto simp: check_date_fields_def Let_def split: if_splits)
  from r have "(y, m, dd, []) \<in> set (re_ymd s)"
    by simp
  then show ?thesis
    using v by (auto simp: d dest!: re_ymd_sound)
qed

theorem strptime_ymd_valid_witness:
  "valid_date \<lparr>year = 2024, month = 6, day = 5\<rparr> \<and>
    (\<exists>ms ds. ms \<in> set (month_spellings 6) \<and> ds \<in> set (day_spellings 5) \<and>
       ''2024-06-05'' = pad_dec 4 2024 @ ''-'' @ ms @ ''-'' @ ds)"
  using strptime_ymd_valid [of "''2024-06-05''" "\<lparr>year = 2024, month = 6, day = 5\<rparr>"]
  by (simp add: strptime_eval)

text \<open>
  C27: the accepted format is wider than ISO. \<^verbatim>\<open>%m\<close> and \<^verbatim>\<open>%d\<close> also match one
  digit, so \<^verbatim>\<open>strptime\<close> accepts every valid date written with an unpadded month and
  day (\<^verbatim>\<open>2024-6-5\<close>) and gives the same date as for its ISO text.
\<close>

theorem strptime_accepts_unpadded:
  assumes "valid_date d"
  shows "strptime_ymd (pad_dec 4 (year d) @ ''-'' @ dec_short (month d) @ ''-'' @ dec_short (day d)) = Inr d"
proof -
  from assms have y: "year d < 10000" and m: "1 \<le> month d" "month d \<le> 12"
    and dd: "1 \<le> day d" "day d \<le> 31"
    using days_in_month_le_31 [of "month d" "year d"] by (auto simp: valid_date_def)
  obtain xs where xs: "re_m (dec_short (month d) @ CHR ''-'' # dec_short (day d)) =
      (month d, CHR ''-'' # dec_short (day d)) # xs"
    using re_m_short [OF m] by blast
  obtain ys where ys: "re_d (dec_short (day d)) = (day d, []) # ys"
    using re_d_short [OF dd] by blast
  have "\<exists>zs. re_ymd (pad_dec 4 (year d) @ ''-'' @ dec_short (month d) @ ''-'' @ dec_short (day d)) =
      (year d, month d, day d, []) # zs"
    using y xs ys by (simp add: re_ymd_def re_Y_pad)
  moreover have "check_date_fields (year d) (month d) (day d) = Inr d"
    using assms by (cases d) (simp add: check_date_fields_def)
  ultimately show ?thesis by (auto simp: strptime_ymd_def)
qed

theorem strptime_accepts_unpadded_witness:
  "valid_date \<lparr>year = 2024, month = 6, day = 5\<rparr> \<and>
   strptime_ymd ''2024-6-5'' = Inr \<lparr>year = 2024, month = 6, day = 5\<rparr>"
proof -
  have v: "valid_date \<lparr>year = 2024, month = 6, day = 5\<rparr>"
    by (simp add: valid_date_def days_in_month_def is_leap_def)
  have s: "pad_dec 4 2024 @ ''-'' @ dec_short 6 @ ''-'' @ dec_short 5 = ''2024-6-5''"
    by (simp add: pad_dec_4 dec_short_def pad_dec_numeral char_of_def bit_0)
  show ?thesis
    using strptime_accepts_unpadded [OF v] v s by simp
qed

end
