(* ===== verification/World.thy ===== *)
theory World
  imports Dom Dates
begin

text \<open>
  The outside world the script talks to, and the effects it has on it. The script is
  one sequential run; everything outside it is a record \<open>world\<close>:
  \<^item> the network's answer to each \<^verbatim>\<open>requests.get\<close> (a response, or a raised
    \<^verbatim>\<open>RequestException\<close>), given per URL and per attempt at that URL;
  \<^item> Slack's answer to each \<^verbatim>\<open>chat_postMessage\<close>, per call;
  \<^item> what \<^verbatim>\<open>lxml.html.fromstring\<close> makes of a response body (a tree, or an
    exception), what \<^verbatim>\<open>datetime.now()\<close> returns, and the environment variables
    \<^verbatim>\<open>CHANNEL_ID\<close> and \<^verbatim>\<open>IMAGE_URL\<close> (lines 19, 20);
  \<^item> the counters of requests and posts made so far, and the trace of observable effects
    (each GET with its headers, each sleep, each post) in order.
  A computation of the script that may raise is \<open>'a py\<close>: it takes the world and gives
  its result (\<open>Inl\<close> an exception) and the new world. Effects done before an exception
  stay done, as in Python. Logging is not modelled: it changes nothing the script or its
  users depend on.
\<close>

datatype response = Response (status_code: nat) (content: string)

datatype get_outcome = Got response | Request_exception

datatype post_outcome = Post_ok | Post_raises exc

text \<open>The value \<^verbatim>\<open>json.dumps\<close> serialises: the Slack \<^verbatim>\<open>blocks\<close>.\<close>

datatype json = JNull | JStr string | JList "json list" | JObj "(string \<times> json) list"

datatype event =
    Get string "(string \<times> string) list"
  | Sleep nat
  | Jitter
  | Post "string option" string json

record world =
  http :: "string \<Rightarrow> nat \<Rightarrow> get_outcome"
  slack :: "nat \<Rightarrow> post_outcome"
  parse_html :: "string \<Rightarrow> node result"
  clock :: datetime
  channel_id :: "string option"
  image_url :: "string option"
  gets :: "string \<Rightarrow> nat"
  posts :: nat
  trace :: "event list"

type_synonym 'a py = "world \<Rightarrow> 'a result \<times> world"

section \<open>Sequencing and exceptions\<close>

definition ret :: "'a \<Rightarrow> 'a py" where
  "ret x = (\<lambda>w. (Inr x, w))"

definition raise :: "exc \<Rightarrow> 'a py" where
  "raise e = (\<lambda>w. (Inl e, w))"

text \<open>Pure code that may raise, run in the world without touching it.\<close>

definition lift :: "'a result \<Rightarrow> 'a py" where
  "lift r = (\<lambda>w. (r, w))"

definition bind_py :: "'a py \<Rightarrow> ('a \<Rightarrow> 'b py) \<Rightarrow> 'b py" where
  "bind_py m f = (\<lambda>w. case m w of (Inl e, w') \<Rightarrow> (Inl e, w') | (Inr x, w') \<Rightarrow> f x w')"

text \<open>\<^verbatim>\<open>try: m except E as e: h(e)\<close>: the handler sees the world as the failed code left it.\<close>

definition try_except :: "'a py \<Rightarrow> (exc \<Rightarrow> 'a py) \<Rightarrow> 'a py" where
  "try_except m h = (\<lambda>w. case m w of (Inl e, w') \<Rightarrow> h e w' | (Inr x, w') \<Rightarrow> (Inr x, w'))"

section \<open>Effects\<close>

text \<open>
  The two ways an effect changes the world: \<open>emit w evs\<close> appends events to the trace;
  \<open>emit_get w url n evs\<close> also counts \<open>n\<close> more requests of \<open>url\<close>.
\<close>

definition emit :: "world \<Rightarrow> event list \<Rightarrow> world" where
  "emit w evs = w\<lparr>trace := trace w @ evs\<rparr>"

definition emit_get :: "world \<Rightarrow> string \<Rightarrow> nat \<Rightarrow> event list \<Rightarrow> world" where
  "emit_get w url n evs = w\<lparr>gets := (gets w)(url := gets w url + n), trace := trace w @ evs\<rparr>"

text \<open>\<^verbatim>\<open>requests.get(url, headers=headers)\<close>\<close>

definition http_get :: "string \<Rightarrow> (string \<times> string) list \<Rightarrow> get_outcome py" where
  "http_get url hdrs = (\<lambda>w. (Inr (http w url (gets w url)), emit_get w url 1 [Get url hdrs]))"

text \<open>\<^verbatim>\<open>time.sleep(s)\<close> for a fixed \<open>s\<close>, and \<^verbatim>\<open>time.sleep(random.uniform(1, 5))\<close>.\<close>

definition sleep :: "nat \<Rightarrow> unit py" where
  "sleep s = (\<lambda>w. (Inr (), emit w [Sleep s]))"

definition jitter :: "unit py" where
  "jitter = (\<lambda>w. (Inr (), emit w [Jitter]))"

text \<open>\<^verbatim>\<open>html.fromstring(response.content)\<close>\<close>

definition html_fromstring :: "string \<Rightarrow> node py" where
  "html_fromstring s = (\<lambda>w. (parse_html w s, w))"

definition datetime_now :: "datetime py" where
  "datetime_now = (\<lambda>w. (Inr (clock w), w))"

text \<open>\<^verbatim>\<open>client.chat_postMessage(channel=CHANNEL_ID, text=..., blocks=json.dumps(...))\<close>\<close>

definition chat_post :: "string \<Rightarrow> json \<Rightarrow> unit py" where
  "chat_post txt blocks =
     (\<lambda>w. (case slack w (posts w) of Post_ok \<Rightarrow> Inr () | Post_raises e \<Rightarrow> Inl e,
           (emit w [Post (channel_id w) txt blocks])\<lparr>posts := Suc (posts w)\<rparr>))"

text \<open>
  The world at the start of a run: no request or post made yet, an empty trace. The
  environment variables are read once, at import time (lines 18 to 20).
\<close>

definition init_world ::
  "(string \<Rightarrow> nat \<Rightarrow> get_outcome) \<Rightarrow> (nat \<Rightarrow> post_outcome) \<Rightarrow> (string \<Rightarrow> node result) \<Rightarrow>
   datetime \<Rightarrow> string option \<Rightarrow> string option \<Rightarrow> world" where
  "init_world h s p c ch img =
     \<lparr>http = h, slack = s, parse_html = p, clock = c, channel_id = ch, image_url = img,
      gets = (\<lambda>_. 0), posts = 0, trace = []\<rparr>"

text \<open>\<^verbatim>\<open>IMAGE_URL\<close>, read once at import (line 20).\<close>

definition getenv_image_url :: "string option py" where
  "getenv_image_url = (\<lambda>w. (Inr (image_url w), w))"

text \<open>
  Two worlds that answer the same requests of \<open>url\<close> alike: the same network answers and
  parser, and the same number of requests of \<open>url\<close> made so far.
\<close>

definition same_view :: "world \<Rightarrow> world \<Rightarrow> string \<Rightarrow> bool" where
  "same_view w' w url \<longleftrightarrow> http w' = http w \<and> parse_html w' = parse_html w \<and> gets w' url = gets w url"

section \<open>The trace and its counts\<close>

text \<open>
  The posts of a trace, the requests of a URL in a trace, and all requests of a trace.
\<close>

fun is_post :: "event \<Rightarrow> bool" where
  "is_post (Post _ _ _) = True"
| "is_post _ = False"

definition post_events :: "event list \<Rightarrow> event list" where
  "post_events evs = filter is_post evs"

fun get_url :: "event \<Rightarrow> string option" where
  "get_url (Get u _) = Some u"
| "get_url _ = None"

definition count_gets :: "string \<Rightarrow> event list \<Rightarrow> nat" where
  "count_gets u evs = length (filter (\<lambda>e. get_url e = Some u) evs)"

definition requests :: "event list \<Rightarrow> nat" where
  "requests evs = length (filter (\<lambda>e. get_url e \<noteq> None) evs)"

section \<open>Evaluation rules\<close>

lemma bind_py_ret [simp, py_simps]: "bind_py (ret x) f = f x"
  by (simp add: bind_py_def ret_def)

lemma bind_py_raise [simp, py_simps]: "bind_py (raise e) f = raise e"
  by (simp add: bind_py_def raise_def)

lemma bind_py_lift_Inr [simp, py_simps]: "bind_py (lift (Inr x)) f = f x"
  by (simp add: bind_py_def lift_def)

lemma bind_py_lift_Inl [simp, py_simps]: "bind_py (lift (Inl e)) f = raise e"
  by (simp add: bind_py_def lift_def raise_def)

lemma bind_py_assoc [simp]: "bind_py (bind_py m f) g = bind_py m (\<lambda>x. bind_py (f x) g)"
  by (rule ext) (simp add: bind_py_def split: prod.splits sum.splits)

lemma bind_py_apply [py_simps]:
  "bind_py m f w = (case m w of (Inl e, w') \<Rightarrow> (Inl e, w') | (Inr x, w') \<Rightarrow> f x w')"
  by (simp add: bind_py_def)

lemma try_except_apply [py_simps]:
  "try_except m h w = (case m w of (Inl e, w') \<Rightarrow> h e w' | (Inr x, w') \<Rightarrow> (Inr x, w'))"
  by (simp add: try_except_def)

section \<open>World updates\<close>

lemma emit_get_sel [simp]:
  "http (emit_get w url n evs) = http w" "slack (emit_get w url n evs) = slack w"
  "parse_html (emit_get w url n evs) = parse_html w" "clock (emit_get w url n evs) = clock w"
  "channel_id (emit_get w url n evs) = channel_id w"
  "image_url (emit_get w url n evs) = image_url w" "posts (emit_get w url n evs) = posts w"
  "gets (emit_get w url n evs) = (gets w)(url := gets w url + n)"
  "trace (emit_get w url n evs) = trace w @ evs"
  by (simp_all add: emit_get_def)

lemma emit_sel [simp]:
  "http (emit w evs) = http w" "slack (emit w evs) = slack w"
  "parse_html (emit w evs) = parse_html w" "clock (emit w evs) = clock w"
  "channel_id (emit w evs) = channel_id w" "image_url (emit w evs) = image_url w"
  "posts (emit w evs) = posts w" "gets (emit w evs) = gets w"
  "trace (emit w evs) = trace w @ evs"
  by (simp_all add: emit_def)

lemma emit_get_emit_get [simp]:
  "emit_get (emit_get w url n e1) url m e2 = emit_get w url (n + m) (e1 @ e2)"
  by (simp add: emit_get_def add.assoc)

lemma emit_emit_get [simp]: "emit (emit_get w url n e1) e2 = emit_get w url n (e1 @ e2)"
  by (simp add: emit_def emit_get_def)

lemma emit_get_emit [simp]: "emit_get (emit w e1) url n e2 = emit_get w url n (e1 @ e2)"
  by (simp add: emit_def emit_get_def)

lemma emit_emit [simp]: "emit (emit w e1) e2 = emit w (e1 @ e2)"
  by (simp add: emit_def)

lemma emit_Nil [simp]: "emit w [] = w"
  by (simp add: emit_def)

lemma emit_get_0: "emit_get w url 0 evs = emit w evs"
  by (simp add: emit_def emit_get_def)

lemma same_view_emit_get [simp]:
  "same_view (emit_get w' u n evs) (emit_get w u n evs') url \<longleftrightarrow> same_view w' w url"
  by (auto simp: same_view_def)

lemmas effect_defs [py_simps] =
  ret_def raise_def lift_def http_get_def sleep_def jitter_def html_fromstring_def
  datetime_now_def chat_post_def getenv_image_url_def

section \<open>Counting the events of a trace\<close>

lemma post_events_Nil [simp]: "post_events [] = []"
  by (simp add: post_events_def)

lemma post_events_append [simp]: "post_events (xs @ ys) = post_events xs @ post_events ys"
  by (simp add: post_events_def)

lemma post_events_Cons [simp]: "post_events (e # xs) = (if is_post e then e # post_events xs else post_events xs)"
  by (simp add: post_events_def)

lemma count_gets_append [simp]: "count_gets u (xs @ ys) = count_gets u xs + count_gets u ys"
  by (simp add: count_gets_def)

lemma count_gets_simps [simp]:
  "count_gets u [] = 0"
  "count_gets u (Get v h # evs) = (if v = u then Suc (count_gets u evs) else count_gets u evs)"
  "count_gets u (Sleep s # evs) = count_gets u evs"
  "count_gets u (Jitter # evs) = count_gets u evs"
  "count_gets u (Post c t b # evs) = count_gets u evs"
  by (auto simp: count_gets_def)

lemma requests_simps [simp]:
  "requests [] = 0" "requests (xs @ ys) = requests xs + requests ys"
  "requests (Get v h # evs) = Suc (requests evs)" "requests (Sleep s # evs) = requests evs"
  "requests (Jitter # evs) = requests evs" "requests (Post c t b # evs) = requests evs"
  by (simp_all add: requests_def)

text \<open>The events of one fetch: all its requests are of its URL.\<close>

lemma requests_fetch:
  "set evs \<subseteq> {Get url h, Sleep s, Jitter} \<Longrightarrow> requests evs = count_gets url evs"
  by (induction evs) auto

end
