(* ===== verification/Fetcher.thy ===== *)
theory Fetcher
  imports World
begin

text \<open>
  The fetcher, \<^verbatim>\<open>makerequest(url, retries=3, delay=60)\<close> (lines 22 to 51 of
  \<^verbatim>\<open>src/zerodaynewsletter.py\<close>). The loop \<^verbatim>\<open>for attempt in range(retries)\<close> is
  structural recursion over the list \<open>[0..retries - 1]\<close> of attempt numbers (empty when
  \<open>retries \<le> 0\<close>, as \<^verbatim>\<open>range\<close> is). One iteration issues the GET; a status of 200
  returns the parsed tree (a parser exception escapes, since only
  \<^verbatim>\<open>RequestException\<close> is caught); any other status returns \<^verbatim>\<open>None\<close> at once;
  a \<^verbatim>\<open>RequestException\<close> sleeps \<open>delay\<close> and then the random courtesy delay before
  the next attempt, or returns \<^verbatim>\<open>None\<close> on the last one. The courtesy delay at line 51
  is reached only on that retry path: every other branch has returned before it.
\<close>

definition user_agent :: string where
  "user_agent = ''Mozilla/5.0 (Windows NT 10.0; Win64; x64; rv:126.0) Gecko/20100101 Firefox/126.0''"

definition ua_headers :: "(string \<times> string) list" where
  "ua_headers = [(''User-Agent'', user_agent)]"

primrec mr_loop :: "string \<Rightarrow> int \<Rightarrow> nat \<Rightarrow> int list \<Rightarrow> node option py" where
  "mr_loop url retries delay [] = ret None"
| "mr_loop url retries delay (attempt # rest) =
     bind_py (http_get url ua_headers) (\<lambda>out.
       case out of
         Got resp \<Rightarrow>
           if status_code resp = 200
           then bind_py (html_fromstring (content resp)) (\<lambda>tree. ret (Some tree))
           else ret None
       | Request_exception \<Rightarrow>
           if attempt < retries - 1
           then bind_py (sleep delay) (\<lambda>_. bind_py jitter (\<lambda>_. mr_loop url retries delay rest))
           else ret None)"

definition makerequest :: "string \<Rightarrow> int \<Rightarrow> nat \<Rightarrow> node option py" where
  "makerequest url retries delay = mr_loop url retries delay [0..retries - 1]"

text \<open>The trace of \<open>k\<close> failed attempts that were retried.\<close>

abbreviation retry_rounds :: "string \<Rightarrow> nat \<Rightarrow> nat \<Rightarrow> event list" where
  "retry_rounds url delay k \<equiv> concat (replicate k [Get url ua_headers, Sleep delay, Jitter])"

section \<open>Lemmas\<close>

lemma upto_Cons_if_le: "a \<le> b \<Longrightarrow> [a..b] = a # [a + 1..b]"
  by (rule upto_rec1)

text \<open>One failed attempt that is retried, as a step of the world.\<close>

lemma mr_loop_retry_step:
  assumes "http w url (gets w url) = Request_exception" "attempt < retries - 1"
  shows "mr_loop url retries delay (attempt # rest) w =
         mr_loop url retries delay rest (emit_get w url 1 [Get url ua_headers, Sleep delay, Jitter])"
  using assms by (simp add: bind_py_apply effect_defs)

lemma mr_loop_success:
  assumes "a + int k < retries"
    and "\<forall>j<k. http w url (gets w url + j) = Request_exception"
    and "http w url (gets w url + k) = Got resp" "status_code resp = 200"
    and "parse_html w (content resp) = Inr tree"
  shows "mr_loop url retries delay [a..retries - 1] w =
    (Inr (Some tree), emit_get w url (Suc k) (retry_rounds url delay k @ [Get url ua_headers]))"
  using assms
proof (induction k arbitrary: a w)
  case 0
  then have "[a..retries - 1] = a # [a + 1..retries - 1]"
    by (intro upto_Cons_if_le) simp
  with "0.prems" show ?case
    by (simp add: bind_py_apply effect_defs)
next
  case (Suc k)
  let ?w1 = "emit_get w url 1 [Get url ua_headers, Sleep delay, Jitter]"
  from Suc.prems(1) have split: "[a..retries - 1] = a # [a + 1..retries - 1]"
    by (intro upto_Cons_if_le) simp
  from Suc.prems(2) have fail: "http w url (gets w url) = Request_exception"
    by (metis add.right_neutral zero_less_Suc)
  from Suc.prems(1) have retry: "a < retries - 1"
    by simp
  have ih: "mr_loop url retries delay [a + 1..retries - 1] ?w1 =
    (Inr (Some tree), emit_get ?w1 url (Suc k) (retry_rounds url delay k @ [Get url ua_headers]))"
  proof (rule Suc.IH)
    show "a + 1 + int k < retries" using Suc.prems(1) by simp
    show "\<forall>j<k. http ?w1 url (gets ?w1 url + j) = Request_exception"
      using Suc.prems(2) by auto
    show "http ?w1 url (gets ?w1 url + k) = Got resp"
      using Suc.prems(3) by simp
  qed (use Suc.prems in simp_all)
  have "mr_loop url retries delay [a..retries - 1] w =
        mr_loop url retries delay [a + 1..retries - 1] ?w1"
    using mr_loop_retry_step [OF fail retry] split by (simp del: mr_loop.simps)
  with ih show ?case
    by simp
qed

lemma mr_loop_exhausted:
  assumes "a + int (Suc n) = retries"
    and "\<forall>j\<le>n. http w url (gets w url + j) = Request_exception"
  shows "mr_loop url retries delay [a..retries - 1] w =
    (Inr None, emit_get w url (Suc n) (retry_rounds url delay n @ [Get url ua_headers]))"
  using assms
proof (induction n arbitrary: a w)
  case 0
  then have "retries - 1 = a"
    by simp
  then have "[a..retries - 1] = [a]"
    by (simp add: upto_rec1)
  with "0.prems" show ?case
    by (simp add: bind_py_apply effect_defs)
next
  case (Suc n)
  let ?w1 = "emit_get w url 1 [Get url ua_headers, Sleep delay, Jitter]"
  from Suc.prems(1) have split: "[a..retries - 1] = a # [a + 1..retries - 1]"
    by (intro upto_Cons_if_le) simp
  from Suc.prems(2) have fail: "http w url (gets w url) = Request_exception"
    by (metis add.right_neutral zero_le)
  from Suc.prems(1) have retry: "a < retries - 1"
    by simp
  have ih: "mr_loop url retries delay [a + 1..retries - 1] ?w1 =
    (Inr None, emit_get ?w1 url (Suc n) (retry_rounds url delay n @ [Get url ua_headers]))"
  proof (rule Suc.IH)
    show "a + 1 + int (Suc n) = retries" using Suc.prems(1) by simp
    show "\<forall>j\<le>n. http ?w1 url (gets ?w1 url + j) = Request_exception"
      using Suc.prems(2) by auto
  qed
  have "mr_loop url retries delay [a..retries - 1] w =
        mr_loop url retries delay [a + 1..retries - 1] ?w1"
    using mr_loop_retry_step [OF fail retry] split by (simp del: mr_loop.simps)
  with ih show ?case
    by simp
qed

text \<open>Requests issued by the loop: one per attempt it runs, at least one if it runs at all.\<close>

lemma mr_loop_gets:
  "\<exists>m \<le> length xs. (xs \<noteq> [] \<longrightarrow> 0 < m) \<and>
     gets (snd (mr_loop url retries delay xs w)) = (gets w)(url := gets w url + m)"
proof (induction xs arbitrary: w)
  case Nil
  then show ?case by (intro exI [of _ 0]) (simp add: effect_defs)
next
  case (Cons attempt rest)
  let ?w1 = "emit_get w url 1 [Get url ua_headers, Sleep delay, Jitter]"
  show ?case
  proof (cases "http w url (gets w url) = Request_exception \<and> attempt < retries - 1")
    case True
    then have step: "mr_loop url retries delay (attempt # rest) w = mr_loop url retries delay rest ?w1"
      using mr_loop_retry_step by blast
    obtain m where "m \<le> length rest"
      "gets (snd (mr_loop url retries delay rest ?w1)) = (gets ?w1)(url := gets ?w1 url + m)"
      using Cons.IH by blast
    then show ?thesis
      by (intro exI [of _ "Suc m"]) (simp add: step del: mr_loop.simps)
  next
    case False
    then show ?thesis
      by (intro exI [of _ 1])
        (auto simp: bind_py_apply effect_defs split: get_outcome.splits sum.splits)
  qed
qed

lemma mr_loop_trace:
  "\<exists>evs. trace (snd (mr_loop url retries delay xs w)) = trace w @ evs \<and>
     set evs \<subseteq> {Get url ua_headers, Sleep delay, Jitter}"
proof (induction xs arbitrary: w)
  case Nil
  then show ?case by (simp add: effect_defs)
next
  case (Cons attempt rest)
  let ?w1 = "emit_get w url 1 [Get url ua_headers, Sleep delay, Jitter]"
  show ?case
  proof (cases "http w url (gets w url) = Request_exception \<and> attempt < retries - 1")
    case True
    then have step: "mr_loop url retries delay (attempt # rest) w = mr_loop url retries delay rest ?w1"
      using mr_loop_retry_step by blast
    obtain evs where "trace (snd (mr_loop url retries delay rest ?w1)) = trace ?w1 @ evs"
      "set evs \<subseteq> {Get url ua_headers, Sleep delay, Jitter}"
      using Cons.IH by blast
    then show ?thesis
      by (intro exI [of _ "[Get url ua_headers, Sleep delay, Jitter] @ evs"])
        (simp add: step del: mr_loop.simps)
  next
    case False
    then show ?thesis
      by (intro exI [of _ "[Get url ua_headers]"])
        (auto simp: bind_py_apply effect_defs split: get_outcome.splits sum.splits)
  qed
qed

text \<open>
  Locality: what the loop returns and adds to the world depends only on the answers to
  its URL, the parser and the number of requests of its URL made before.
\<close>

lemma mr_loop_frame:
  "\<exists>m evs. m = count_gets url evs \<and> m \<le> length xs \<and>
     (\<forall>w'. same_view w' w url \<longrightarrow>
        mr_loop url r d xs w' = (fst (mr_loop url r d xs w), emit_get w' url m evs))"
proof (induction xs arbitrary: w)
  case Nil
  then show ?case by (intro exI [of _ 0] exI [of _ "[]"]) (simp add: effect_defs emit_get_0)
next
  case (Cons a rest)
  show ?case
  proof (cases "http w url (gets w url) = Request_exception \<and> a < r - 1")
    case True
    let ?e = "[Get url ua_headers, Sleep d, Jitter]"
    obtain m evs where cnt: "m = count_gets url evs" "m \<le> length rest"
      and ih: "\<forall>w''. same_view w'' (emit_get w url 1 ?e) url \<longrightarrow>
        mr_loop url r d rest w'' = (fst (mr_loop url r d rest (emit_get w url 1 ?e)), emit_get w'' url m evs)"
      using Cons.IH [of "emit_get w url 1 ?e"] by (elim exE conjE) (rule that; assumption)
    have step: "mr_loop url r d (a # rest) w' = mr_loop url r d rest (emit_get w' url 1 ?e)"
      if "same_view w' w url" for w'
      using True that by (intro mr_loop_retry_step) (simp_all add: same_view_def)
    have all: "\<forall>w'. same_view w' w url \<longrightarrow>
        mr_loop url r d (a # rest) w' = (fst (mr_loop url r d (a # rest) w), emit_get w' url (Suc m) (?e @ evs))"
    proof (intro allI impI)
      fix w' assume v: "same_view w' w url"
      have "same_view (emit_get w' url 1 ?e) (emit_get w url 1 ?e) url"
        using v by simp
      with ih have rest: "mr_loop url r d rest (emit_get w' url 1 ?e) =
          (fst (mr_loop url r d rest (emit_get w url 1 ?e)), emit_get (emit_get w' url 1 ?e) url m evs)"
        by blast
      have "same_view w w url"
        by (simp add: same_view_def)
      then show "mr_loop url r d (a # rest) w' =
          (fst (mr_loop url r d (a # rest) w), emit_get w' url (Suc m) (?e @ evs))"
        using step [OF v] step [of w] rest by (simp del: mr_loop.simps)
    qed
    have "Suc m = count_gets url (?e @ evs)" "Suc m \<le> length (a # rest)"
      using cnt by simp_all
    with all show ?thesis
      by (intro exI conjI) assumption+
  next
    case False
    then have "\<forall>w'. same_view w' w url \<longrightarrow>
        mr_loop url r d (a # rest) w' = (fst (mr_loop url r d (a # rest) w), emit_get w' url 1 [Get url ua_headers])"
      by (auto simp: same_view_def bind_py_apply effect_defs split: get_outcome.splits sum.splits)
    moreover have "1 = count_gets url [Get url ua_headers]" "1 \<le> length (a # rest)"
      by simp_all
    ultimately show ?thesis
      by (intro exI conjI) assumption+
  qed
qed

lemma makerequest_frame:
  "\<exists>res m evs. m = count_gets url evs \<and> m \<le> nat r \<and> set evs \<subseteq> {Get url ua_headers, Sleep d, Jitter} \<and>
     (\<forall>w'. same_view w' w url \<longrightarrow> makerequest url r d w' = (res, emit_get w' url m evs))"
proof -
  define res where "res = fst (mr_loop url r d [0..r - 1] w)"
  obtain m evs where cnt: "m = count_gets url evs" "m \<le> length [0..r - 1]" and "\<forall>w'. same_view w' w url \<longrightarrow>
      mr_loop url r d [0..r - 1] w' = (fst (mr_loop url r d [0..r - 1] w), emit_get w' url m evs)"
    using mr_loop_frame [of url "[0..r - 1]" w r d] by (elim exE conjE) (rule that; assumption)
  then have fr: "\<forall>w'. same_view w' w url \<longrightarrow>
      mr_loop url r d [0..r - 1] w' = (res, emit_get w' url m evs)"
    by (simp only: res_def)
  obtain evs' where tr: "trace (snd (mr_loop url r d [0..r - 1] w)) = trace w @ evs'"
      "set evs' \<subseteq> {Get url ua_headers, Sleep d, Jitter}"
    using mr_loop_trace by blast
  have "same_view w w url"
    by (simp add: same_view_def)
  with fr have "mr_loop url r d [0..r - 1] w = (res, emit_get w url m evs)"
    by blast
  with tr have "evs = evs'"
    by simp
  moreover have "m \<le> nat r"
    using cnt(2) by simp
  ultimately show ?thesis
    using fr tr(2) cnt(1) unfolding makerequest_def
    by (intro exI [of _ res] exI [of _ m] exI [of _ evs] conjI) simp_all
qed

section \<open>Properties of \<^verbatim>\<open>makerequest\<close>\<close>

text \<open>
  C6: retry then success. When the first \<open>k\<close> attempts raise a transport error and
  attempt \<open>k + 1\<close> (still within \<open>retries\<close>) answers 200 with a parsable body,
  \<^verbatim>\<open>makerequest\<close> returns the parsed tree after exactly \<open>k + 1\<close> requests,
  each failed attempt followed by the fixed back-off and the courtesy delay, and nothing
  after the successful request (in particular no courtesy delay).
\<close>

theorem makerequest_retry_success:
  assumes "int k < retries"
    and "\<forall>j<k. http w url (gets w url + j) = Request_exception"
    and "http w url (gets w url + k) = Got resp" "status_code resp = 200"
    and "parse_html w (content resp) = Inr tree"
  shows "makerequest url retries delay w =
    (Inr (Some tree), emit_get w url (Suc k) (retry_rounds url delay k @ [Get url ua_headers]))"
  using mr_loop_success [where a = 0, OF _ assms(2-5)] assms(1)
  by (simp add: makerequest_def)

theorem makerequest_retry_success_witness:
  "makerequest ''https://example.org/'' 3 60
     (init_world (\<lambda>u n. if n < 2 then Request_exception else Got (Response 200 ''<html/>''))
        (\<lambda>_. Post_ok) (\<lambda>_. Inr (Element ''html'' [] [])) 0 None None) =
   (Inr (Some (Element ''html'' [] [])),
    emit_get
     (init_world (\<lambda>u n. if n < 2 then Request_exception else Got (Response 200 ''<html/>''))
        (\<lambda>_. Post_ok) (\<lambda>_. Inr (Element ''html'' [] [])) 0 None None)
     ''https://example.org/'' 3
     (retry_rounds ''https://example.org/'' 60 2 @ [Get ''https://example.org/'' ua_headers]))"
  using makerequest_retry_success [where k = 2 and retries = 3 and url = "''https://example.org/''"
      and w = "init_world (\<lambda>u n. if n < 2 then Request_exception else Got (Response 200 ''<html/>''))
        (\<lambda>_. Post_ok) (\<lambda>_. Inr (Element ''html'' [] [])) 0 None None"
      and resp = "Response 200 ''<html/>''" and tree = "Element ''html'' [] []" and delay = 60]
  by (simp add: init_world_def)

text \<open>
  C7: exhaustion. When all \<open>retries\<close> attempts raise a transport error,
  \<^verbatim>\<open>makerequest\<close> gives up with \<^verbatim>\<open>None\<close> after exactly \<open>retries\<close> requests and
  \<open>retries - 1\<close> back-offs: no request and no sleep after the last failed attempt.
\<close>

theorem makerequest_exhausted:
  assumes "retries = int (Suc n)"
    and "\<forall>j\<le>n. http w url (gets w url + j) = Request_exception"
  shows "makerequest url retries delay w =
    (Inr None, emit_get w url (Suc n) (retry_rounds url delay n @ [Get url ua_headers]))"
  unfolding makerequest_def using assms
  by (intro mr_loop_exhausted [where a = 0]) simp_all

theorem makerequest_exhausted_witness:
  "makerequest ''https://example.org/'' 3 60
     (init_world (\<lambda>u n. Request_exception) (\<lambda>_. Post_ok) (\<lambda>_. Inl ParserError) 0 None None) =
   (Inr None,
    emit_get (init_world (\<lambda>u n. Request_exception) (\<lambda>_. Post_ok) (\<lambda>_. Inl ParserError) 0 None None)
     ''https://example.org/'' 3
     (retry_rounds ''https://example.org/'' 60 2 @ [Get ''https://example.org/'' ua_headers]))"
  using makerequest_exhausted [where n = 2 and retries = 3 and url = "''https://example.org/''"
      and w = "init_world (\<lambda>u n. Request_exception) (\<lambda>_. Post_ok) (\<lambda>_. Inl ParserError) 0 None None"
      and delay = 60]
  by (simp add: init_world_def)

text \<open>
  C8: a rejected response is terminal. When the first attempt gets an HTTP status other
  than 200, \<^verbatim>\<open>makerequest\<close> returns \<^verbatim>\<open>None\<close> after that one request, with no retry
  and no delay, however many retries remain.
\<close>

theorem makerequest_rejected:
  assumes "0 < retries"
    and "http w url (gets w url) = Got resp" "status_code resp \<noteq> 200"
  shows "makerequest url retries delay w = (Inr None, emit_get w url 1 [Get url ua_headers])"
proof -
  from assms(1) have "[0..retries - 1] = 0 # [1..retries - 1]"
    using upto_Cons_if_le [of 0 "retries - 1"] by simp
  with assms(2,3) show ?thesis
    by (simp add: makerequest_def bind_py_apply effect_defs)
qed

theorem makerequest_rejected_witness:
  "makerequest ''https://example.org/'' 3 60
     (init_world (\<lambda>u n. Got (Response 403 ''denied'')) (\<lambda>_. Post_ok) (\<lambda>_. Inl ParserError) 0 None None) =
   (Inr None,
    emit_get (init_world (\<lambda>u n. Got (Response 403 ''denied'')) (\<lambda>_. Post_ok) (\<lambda>_. Inl ParserError) 0 None None)
     ''https://example.org/'' 1 [Get ''https://example.org/'' ua_headers])"
  using makerequest_rejected [where retries = 3 and url = "''https://example.org/''"
      and w = "init_world (\<lambda>u n. Got (Response 403 ''denied'')) (\<lambda>_. Post_ok) (\<lambda>_. Inl ParserError) 0 None None"
      and resp = "Response 403 ''denied''" and delay = 60]
  by (simp add: init_world_def)

text \<open>
  C19: bounded requests. In every world, \<^verbatim>\<open>makerequest\<close> requests its URL at most
  \<open>retries\<close> times (never when \<open>retries \<le> 0\<close>), at least once when \<open>retries > 0\<close>,
  requests no other URL, and adds to the trace only GETs of its URL with the fixed
  User-Agent header, the fixed back-off and the courtesy delay.
\<close>

theorem makerequest_requests_bounded:
  "\<exists>m evs. m \<le> nat retries \<and> (0 < retries \<longrightarrow> 0 < m) \<and>
     gets (snd (makerequest url retries delay w)) = (gets w)(url := gets w url + m) \<and>
     trace (snd (makerequest url retries delay w)) = trace w @ evs \<and>
     set evs \<subseteq> {Get url ua_headers, Sleep delay, Jitter}"
proof -
  obtain m where m: "m \<le> length [0..retries - 1]" "[0..retries - 1] \<noteq> [] \<longrightarrow> 0 < m"
    "gets (snd (mr_loop url retries delay [0..retries - 1] w)) = (gets w)(url := gets w url + m)"
    using mr_loop_gets by blast
  obtain evs where "trace (snd (mr_loop url retries delay [0..retries - 1] w)) = trace w @ evs"
    "set evs \<subseteq> {Get url ua_headers, Sleep delay, Jitter}"
    using mr_loop_trace by blast
  with m show ?thesis
    by (intro exI [of _ m] exI [of _ evs]) (auto simp: makerequest_def)
qed

theorem makerequest_requests_bounded_witness:
  "\<exists>m evs. m \<le> 3 \<and> 0 < m \<and>
     gets (snd (makerequest ''https://example.org/'' 3 60
       (init_world (\<lambda>u n. Request_exception) (\<lambda>_. Post_ok) (\<lambda>_. Inl ParserError) 0 None None)))
     = (\<lambda>_. 0)(''https://example.org/'' := m) \<and>
     trace (snd (makerequest ''https://example.org/'' 3 60
       (init_world (\<lambda>u n. Request_exception) (\<lambda>_. Post_ok) (\<lambda>_. Inl ParserError) 0 None None)))
     = evs \<and>
     set evs \<subseteq> {Get ''https://example.org/'' ua_headers, Sleep 60, Jitter}"
  using makerequest_requests_bounded [where retries = 3 and url = "''https://example.org/''"
      and w = "init_world (\<lambda>u n. Request_exception) (\<lambda>_. Post_ok) (\<lambda>_. Inl ParserError) 0 None None"
      and delay = 60]
  by (simp add: init_world_def)

text \<open>
  C9: a parser error escapes. When the first attempt answers 200 but lxml cannot parse the
  body, the parser's exception leaves \<^verbatim>\<open>makerequest\<close> (it is not a
  \<^verbatim>\<open>RequestException\<close>): no retry, no \<^verbatim>\<open>None\<close>, one request made.
\<close>

theorem makerequest_parse_error_escapes:
  assumes "0 < retries" "http w url (gets w url) = Got resp" "status_code resp = 200"
    and "parse_html w (content resp) = Inl e"
  shows "makerequest url retries delay w = (Inl e, emit_get w url 1 [Get url ua_headers])"
proof -
  have "[0..retries - 1] = 0 # [1..retries - 1]"
    using assms(1) by (simp add: upto_Cons_if_le)
  with assms(2-4) show ?thesis
    by (simp add: makerequest_def bind_py_apply effect_defs)
qed

theorem makerequest_parse_error_escapes_witness:
  "makerequest ''https://example.org/'' 3 60
     (init_world (\<lambda>u n. Got (Response 200 ''<'')) (\<lambda>_. Post_ok) (\<lambda>_. Inl ParserError) 0 None None) =
   (Inl ParserError,
    emit_get (init_world (\<lambda>u n. Got (Response 200 ''<'')) (\<lambda>_. Post_ok) (\<lambda>_. Inl ParserError) 0 None None)
     ''https://example.org/'' 1 [Get ''https://example.org/'' ua_headers])"
  using makerequest_parse_error_escapes [where retries = 3 and url = "''https://example.org/''"
      and w = "init_world (\<lambda>u n. Got (Response 200 ''<'')) (\<lambda>_. Post_ok) (\<lambda>_. Inl ParserError) 0 None None"
      and resp = "Response 200 ''<''" and delay = 60 and e = ParserError]
  by (simp add: init_world_def)

end
