(* ===== verification/Listing.thy ===== *)
theory Listing
  imports Fetcher
begin

text \<open>
  The listing extractor, \<^verbatim>\<open>retrieve_advisories()\<close> (lines 53 to 83 of
  \<^verbatim>\<open>src/zerodaynewsletter.py\<close>). The page is fetched with \<open>makerequest\<close>; a
  \<^verbatim>\<open>None\<close> from it makes \<^verbatim>\<open>tree.xpath\<close> raise \<open>AttributeError\<close>. The table is
  found by four positional XPath steps, each \<^verbatim>\<open>[0]\<close> an \<open>IndexError\<close> when the step
  finds nothing (\<open>listing_rows\<close>). The row loop (\<open>scan_rows\<close>) keeps the accumulator
  \<^verbatim>\<open>advisories\<close> and appends to it as the code does; a row counts only with exactly
  eight \<^verbatim>\<open>sort-td\<close> cells, its date cell is parsed with \<^verbatim>\<open>strptime\<close> (a failure
  raises out of the whole loop), and the row is kept when midnight of its date is not
  before \<^verbatim>\<open>now - timedelta(hours=24)\<close>. \<open>spec_scan\<close> is a reference
  definition of the same loop with \<open>filter\<close> and \<open>map\<close>.
\<close>

text \<open>The dictionary built for one row (its keys become fields).\<close>

record advisory =
  zdi_id :: string
  zdi_can :: string
  vendor :: string
  cve_id :: string
  cvss :: string
  adv_date :: string
  extra :: string
  description :: string
  link :: string

definition listing_url :: string where
  "listing_url = ''https://www.zerodayinitiative.com/advisories/published/''"

definition site_origin :: string where
  "site_origin = ''https://www.zerodayinitiative.com''"

section \<open>The table and its rows\<close>

definition listing_rows :: "node \<Rightarrow> node list result" where
  "listing_rows tree =
     bindE (py_index (sel_all ''section'' (attr_eq ''class'' ''blueBg up-advisories nopadding'') tree) 0)
       (\<lambda>section.
     bindE (py_index (sel_desc ''table''
              (\<lambda>m. attr_eq ''id'' ''search-table'' m
                   \<and> attr_contains ''class'' ''table table-hover table-primary'' m) section) 0)
       (\<lambda>table.
     bindE (py_index (sel_desc ''tbody'' (\<lambda>_. True) table) 0)
       (\<lambda>tbody.
     Inr (sel_desc ''tr'' (attr_eq ''id'' ''publishedAdvisories'') tbody))))"

definition row_columns :: "node \<Rightarrow> node list" where
  "row_columns row = sel_desc ''td'' (attr_eq ''class'' ''sort-td'') row"

text \<open>\<^verbatim>\<open>columns and len(columns) == 8\<close>\<close>

definition row_eligible :: "node list \<Rightarrow> bool" where
  "row_eligible cols \<longleftrightarrow> cols \<noteq> [] \<and> length cols = 8"

definition cell_text :: "node \<Rightarrow> string" where
  "cell_text c = py_strip (text_content c)"

text \<open>\<^verbatim>\<open>columns[7].xpath('.//a/@href')[0] if columns[7].xpath('.//a/@href') else None\<close>\<close>

definition row_link :: "node list \<Rightarrow> string option" where
  "row_link cols = (case desc_hrefs (cols ! 7) of [] \<Rightarrow> None | h # _ \<Rightarrow> Some h)"

definition mk_advisory :: "node list \<Rightarrow> advisory" where
  "mk_advisory cols =
     \<lparr>zdi_id = cell_text (cols ! 0), zdi_can = cell_text (cols ! 1), vendor = cell_text (cols ! 2),
      cve_id = cell_text (cols ! 3), cvss = cell_text (cols ! 4), adv_date = cell_text (cols ! 5),
      extra = cell_text (cols ! 6), description = cell_text (cols ! 7),
      link = site_origin @ py_fmt_opt (row_link cols)\<rparr>"

section \<open>The row loop\<close>

fun scan_rows :: "datetime \<Rightarrow> advisory list \<Rightarrow> node list \<Rightarrow> advisory list result" where
  "scan_rows last24 acc [] = Inr acc"
| "scan_rows last24 acc (row # rows) =
     (let cols = row_columns row in
      if row_eligible cols then
        bindE (strptime_ymd (cell_text (cols ! 5))) (\<lambda>d.
          if last24 \<le> midnight d then scan_rows last24 (acc @ [mk_advisory cols]) rows
          else scan_rows last24 acc rows)
      else scan_rows last24 acc rows)"

definition extract_recent_advisories :: "datetime \<Rightarrow> node \<Rightarrow> advisory list result" where
  "extract_recent_advisories now tree =
     bindE (listing_rows tree) (\<lambda>rows.
     bindE (dt_sub now day_us) (\<lambda>last24.
     scan_rows last24 [] rows))"

definition retrieve_advisories :: "advisory list py" where
  "retrieve_advisories =
     bind_py (makerequest listing_url 3 60) (\<lambda>t.
       case t of
         None \<Rightarrow> raise AttributeError
       | Some tree \<Rightarrow> bind_py datetime_now (\<lambda>now. lift (extract_recent_advisories now tree)))"

section \<open>A reference definition of the loop\<close>

definition eligible :: "node list \<Rightarrow> node list list" where
  "eligible rows = filter row_eligible (map row_columns rows)"

definition row_date :: "node list \<Rightarrow> date result" where
  "row_date cols = strptime_ymd (cell_text (cols ! 5))"

definition keep_row :: "datetime \<Rightarrow> node list \<Rightarrow> bool" where
  "keep_row last24 cols = (case row_date cols of Inr d \<Rightarrow> last24 \<le> midnight d | Inl _ \<Rightarrow> False)"

definition spec_scan :: "datetime \<Rightarrow> node list \<Rightarrow> advisory list result" where
  "spec_scan last24 rows =
     (if list_ex (\<lambda>cols. isl (row_date cols)) (eligible rows) then Inl ValueError
      else Inr (map mk_advisory (filter (keep_row last24) (eligible rows))))"

text \<open>\<^verbatim>\<open>now.toordinal()\<close>: the day number of the date of a datetime.\<close>

definition today_ord :: "datetime \<Rightarrow> int" where
  "today_ord now = now div day_us + 1"

section \<open>Fixtures\<close>

text \<open>A listing page in the shape the site serves, for the witnesses below.\<close>

definition sort_td :: "node list \<Rightarrow> node" where
  "sort_td cs = Element ''td'' [(''class'', ''sort-td'')] cs"

definition example_row :: "string \<Rightarrow> string \<Rightarrow> node" where
  "example_row zid d =
     Element ''tr'' [(''id'', ''publishedAdvisories'')]
       (map sort_td [[Text zid], [Text ''ZDI-CAN-23000''], [Text ''Acme''], [Text '' CVE-2024-0001 ''],
         [Text ''7.8''], [Text d], [], [Text ''Acme Widget Remote Code Execution'']])"

definition example_listing :: "node list \<Rightarrow> node" where
  "example_listing rows =
     Element ''html'' [] [Element ''body'' []
       [Element ''section'' [(''class'', ''blueBg up-advisories nopadding'')]
         [Element ''table'' [(''id'', ''search-table''), (''class'', ''table table-hover table-primary'')]
           [Element ''tbody'' [] rows]]]]"

section \<open>Lemmas\<close>

lemma eligible_Nil [simp]: "eligible [] = []"
  by (simp add: eligible_def)

lemma eligible_Cons [simp]:
  "eligible (r # rows) =
     (if row_eligible (row_columns r) then row_columns r # eligible rows
      else eligible rows)"
  by (simp add: eligible_def)

lemma eligible_append [simp]: "eligible (xs @ ys) = eligible xs @ eligible ys"
  by (simp add: eligible_def)

lemma scan_rows_spec_acc:
  "scan_rows l acc rows =
     (if list_ex (\<lambda>cols. isl (row_date cols)) (eligible rows) then Inl ValueError
      else Inr (acc @ map mk_advisory (filter (keep_row l) (eligible rows))))"
proof (induction rows arbitrary: acc)
  case Nil
  then show ?case by simp
next
  case (Cons r rows)
  show ?case
  proof (cases "row_eligible (row_columns r)")
    case False
    with Cons.IH show ?thesis by (simp add: Let_def)
  next
    case elig: True
    show ?thesis
    proof (cases "row_date (row_columns r)")
      case (Inl e)
      then have "e = ValueError" by (simp add: row_date_def strptime_ymd_Inl)
      with Inl elig show ?thesis by (simp add: row_date_def Let_def)
    next
      case (Inr d)
      then have "keep_row l (row_columns r) \<longleftrightarrow> l \<le> midnight d"
        and "strptime_ymd (cell_text (row_columns r ! 5)) = Inr d"
        by (simp_all add: keep_row_def row_date_def)
      with Inr elig Cons.IH show ?thesis
        by (simp add: Let_def)
    qed
  qed
qed

lemma dt_sub_day:
  assumes "day_us \<le> now" "now < dt_max"
  shows "dt_sub now day_us = Inr (now - day_us)"
proof -
  have "now - day_us < dt_max"
    using assms day_us_pos by linarith
  with assms show ?thesis
    by (simp add: dt_sub_def Let_def)
qed

lemma keep_row_today:
  assumes "0 < now mod day_us"
  shows "keep_row (now - day_us) cols \<longleftrightarrow>
    (case row_date cols of Inr d \<Rightarrow> today_ord now \<le> int (ymd2ord d) | Inl _ \<Rightarrow> False)"
  using window [OF assms] by (simp add: keep_row_def today_ord_def split: sum.split)

lemma retrieve_advisories_run:
  "\<exists>res m evs. count_gets listing_url evs \<le> 3 \<and> set evs \<subseteq> {Get listing_url ua_headers, Sleep 60, Jitter} \<and>
     retrieve_advisories w = (res, emit_get w listing_url m evs)"
proof -
  obtain res m evs where cnt: "m = count_gets listing_url evs" "m \<le> nat 3"
    and evs: "set evs \<subseteq> {Get listing_url ua_headers, Sleep 60, Jitter}"
    and fr: "\<forall>w'. same_view w' w listing_url \<longrightarrow>
      makerequest listing_url 3 60 w' = (res, emit_get w' listing_url m evs)"
    using makerequest_frame [where url = listing_url and r = 3 and d = 60 and w = w] by (elim exE conjE) (rule that; assumption)
  have "same_view w w listing_url"
    by (simp add: same_view_def)
  with fr have "makerequest listing_url 3 60 w = (res, emit_get w listing_url m evs)"
    by blast
  with evs cnt show ?thesis
    by (auto simp: retrieve_advisories_def bind_py_apply effect_defs split: option.splits sum.splits)
qed

lemmas fixture_eval =
  listing_rows_def example_listing_def example_row_def sort_td_def row_columns_def row_date_def
  cell_text_def py_strip_def py_isspace_def dom_query_defs strptime_eval
  ymd2ord_def days_before_year_def days_before_month_def today_ord_def

section \<open>Properties of the row loop\<close>

text \<open>
  C3: the loop is a filter. The code's accumulating loop over the rows computes exactly
  the reference: a \<open>ValueError\<close> if any eight-cell row has an unparsable date, and
  otherwise one advisory per eight-cell row whose date is not before the cut-off, in
  document order.
\<close>

theorem scan_rows_eq_spec: "scan_rows l [] rows = spec_scan l rows"
  by (simp add: scan_rows_spec_acc spec_scan_def)

text \<open>
  C23: rows of the wrong shape are ignored. A row that does not have exactly eight
  \<^verbatim>\<open>sort-td\<close> cells changes nothing, wherever it stands and whatever it contains.
\<close>

theorem ineligible_row_ignored:
  assumes "\<not> row_eligible (row_columns r)"
  shows "scan_rows l acc (xs @ r # ys) = scan_rows l acc (xs @ ys)"
  using assms by (simp add: scan_rows_spec_acc)

theorem ineligible_row_ignored_witness:
  "scan_rows 0 [] [Element ''tr'' [] [], example_row ''ZDI-24-699'' ''2024-06-04''] =
   scan_rows 0 [] [example_row ''ZDI-24-699'' ''2024-06-04'']"
  using ineligible_row_ignored [where r = "Element ''tr'' [] []" and xs = "[]"
      and ys = "[example_row ''ZDI-24-699'' ''2024-06-04'']" and l = 0 and acc = "[]"]
  by (simp add: fixture_eval row_eligible_def)

text \<open>
  C22: one bad date aborts the listing. If any eight-cell row's date cell does not parse,
  the whole extraction raises \<open>ValueError\<close>, whatever the other rows hold: the parse
  failure is not isolated to its row.
\<close>

theorem bad_date_aborts:
  assumes "r \<in> set rows" "row_eligible (row_columns r)" "isl (row_date (row_columns r))"
  shows "scan_rows l acc rows = Inl ValueError"
proof -
  have "row_columns r \<in> set (eligible rows)"
    using assms(1,2) by (auto simp: eligible_def)
  with assms(3) have "list_ex (\<lambda>cols. isl (row_date cols)) (eligible rows)"
    by (auto simp: list_ex_iff)
  then show ?thesis by (simp add: scan_rows_spec_acc)
qed

theorem bad_date_aborts_witness:
  "scan_rows 0 [] [example_row ''ZDI-24-700'' ''2024-13-05'', example_row ''ZDI-24-699'' ''2024-06-04''] = Inl ValueError"
  using bad_date_aborts [where r = "example_row ''ZDI-24-700'' ''2024-13-05''"
      and rows = "[example_row ''ZDI-24-700'' ''2024-13-05'', example_row ''ZDI-24-699'' ''2024-06-04'']"
      and l = 0 and acc = "[]"]
  by (simp add: fixture_eval row_eligible_def)

text \<open>
  C4: the window keeps one calendar day. When the run is not exactly at midnight, the
  cut-off \<^verbatim>\<open>now - timedelta(hours=24)\<close> compared with the midnight of each row's date
  keeps exactly the rows dated today (or later): a row dated the day before the run is
  dropped, although it may have been published less than 24 hours earlier.
\<close>

theorem extract_keeps_only_today:
  assumes "0 < now mod day_us" "day_us \<le> now" "now < dt_max"
    and "listing_rows tree = Inr rows"
    and "\<not> list_ex (\<lambda>cols. isl (row_date cols)) (eligible rows)"
  shows "extract_recent_advisories now tree =
    Inr (map mk_advisory
      (filter (\<lambda>cols. case row_date cols of Inr d \<Rightarrow> today_ord now \<le> int (ymd2ord d) | Inl _ \<Rightarrow> False)
        (eligible rows)))"
proof -
  have "filter (keep_row (now - day_us)) (eligible rows) =
        filter (\<lambda>cols. case row_date cols of Inr d \<Rightarrow> today_ord now \<le> int (ymd2ord d) | Inl _ \<Rightarrow> False)
          (eligible rows)"
    using keep_row_today [OF assms(1)] by (intro filter_cong) simp_all
  with assms show ?thesis
    by (simp add: extract_recent_advisories_def dt_sub_day scan_rows_spec_acc)
qed

theorem extract_keeps_only_today_witness:
  "extract_recent_advisories (739041 * day_us + 43200000000)
     (example_listing [example_row ''ZDI-24-700'' ''2024-06-05'', example_row ''ZDI-24-699'' ''2024-06-04''])
   = Inr [mk_advisory (row_columns (example_row ''ZDI-24-700'' ''2024-06-05''))]"
  using extract_keeps_only_today [where now = "739041 * day_us + 43200000000"
      and tree = "example_listing [example_row ''ZDI-24-700'' ''2024-06-05'', example_row ''ZDI-24-699'' ''2024-06-04'']"
      and rows = "[example_row ''ZDI-24-700'' ''2024-06-05'', example_row ''ZDI-24-699'' ''2024-06-04'']"]
  by (simp add: fixture_eval day_us_def dt_max_def row_eligible_def)

text \<open>
  C20: a changed listing page. When the page has no section of class
  \<^verbatim>\<open>blueBg up-advisories nopadding\<close>, \<^verbatim>\<open>section[0]\<close> raises \<open>IndexError\<close>, so
  the extraction, and with it the run, fails instead of reporting no advisories.
\<close>

theorem listing_without_section:
  assumes "sel_all ''section'' (attr_eq ''class'' ''blueBg up-advisories nopadding'') tree = []"
  shows "extract_recent_advisories now tree = Inl IndexError"
  using assms by (simp add: extract_recent_advisories_def listing_rows_def)

theorem listing_without_section_witness:
  "extract_recent_advisories 0 (Element ''html'' [] [Element ''body'' [] [Text ''Service unavailable'']]) = Inl IndexError"
  using listing_without_section [where tree = "Element ''html'' [] [Element ''body'' [] [Text ''Service unavailable'']]"]
  by (simp add: dom_query_defs)

section \<open>Lemmas for the other components\<close>

text \<open>
  What the listing returns: the extraction of the parsed page at the time of
  \<^verbatim>\<open>datetime.now()\<close>, which no effect of the fetch changes; and, off midnight,
  only advisories whose date cell parses to the run's day or a later one.
\<close>

lemma retrieve_advisories_extract:
  assumes "retrieve_advisories w = (Inr advs, w1)"
  shows "\<exists>tree. extract_recent_advisories (clock w) tree = Inr advs"
proof -
  obtain res m evs where "\<forall>w'. same_view w' w listing_url \<longrightarrow>
      makerequest listing_url 3 60 w' = (res, emit_get w' listing_url m evs)"
    using makerequest_frame [where url = listing_url and r = 3 and d = 60 and w = w] by (elim exE conjE) (rule that; assumption)
  moreover have "same_view w w listing_url"
    by (simp add: same_view_def)
  ultimately have "makerequest listing_url 3 60 w = (res, emit_get w listing_url m evs)"
    by blast
  with assms show ?thesis
    by (cases res) (auto simp: retrieve_advisories_def bind_py_apply effect_defs split: option.splits)
qed

lemma extract_recent_advisories_dated:
  assumes "extract_recent_advisories now tree = Inr advs"
    and "0 < now mod day_us" "day_us \<le> now" "now < dt_max"
  shows "\<forall>a\<in>set advs. \<exists>d. strptime_ymd (adv_date a) = Inr d \<and> today_ord now \<le> int (ymd2ord d)"
proof -
  obtain rows where "scan_rows (now - day_us) [] rows = Inr advs"
    using assms(1) dt_sub_day [OF assms(3,4)]
    by (auto simp: extract_recent_advisories_def bindE_eq_Inr_iff)
  then have "advs = map mk_advisory (filter (keep_row (now - day_us)) (eligible rows))"
    by (simp add: scan_rows_spec_acc split: if_splits)
  then show ?thesis
    using keep_row_today [OF assms(2)]
    by (auto simp: mk_advisory_def row_date_def split: sum.splits)
qed

end
