(* ===== verification/Detail.thy ===== *)
theory Detail
  imports Listing
begin

text \<open>
  The detail extractor, \<^verbatim>\<open>retrieve_advisory_info(advisory_link)\<close> (lines 85 to 114 of
  \<^verbatim>\<open>src/zerodaynewsletter.py\<close>). The page is fetched with \<open>makerequest\<close> (a
  \<^verbatim>\<open>None\<close> makes \<^verbatim>\<open>tree.xpath\<close> raise \<open>AttributeError\<close>); three positional
  XPath steps find the table (\<open>detail_rows\<close>), then rows 3, 4, 5 and 6 are read in this
  order, each through \<^verbatim>\<open>tr_elements[i].xpath('./td')[1]\<close> (\<open>second_cell\<close>, an
  \<open>IndexError\<close> when the row or its second cell is missing). Row 5's cell is searched
  for an anchor with \<^verbatim>\<open>find('.//a')\<close>; an anchor's \<^verbatim>\<open>attrib['href']\<close> raises
  \<open>KeyError\<close> when it has no \<^verbatim>\<open>href\<close>. The result is all five fields or an exception.
\<close>

text \<open>The dictionary \<^verbatim>\<open>advisory_information\<close> (line 111).\<close>

record adv_info =
  affected_products :: string
  vulnerability_details :: string
  additional_details :: string
  additional_details_links :: "string option"
  disclosure_timeline :: string

definition detail_rows :: "node \<Rightarrow> node list result" where
  "detail_rows tree =
     bindE (py_index (sel_all ''section'' (attr_eq ''class'' ''blueBg'') tree) 0) (\<lambda>section.
     bindE (py_index (sel_desc ''div'' (attr_eq ''class'' ''contentBlock advisories-details'') section) 0)
       (\<lambda>content_block.
     bindE (py_index (sel_desc ''table'' (attr_eq ''style'' ''max-width: 100%;'') content_block) 0)
       (\<lambda>table.
     Inr (sel_desc ''tr'' (\<lambda>_. True) table))))"

text \<open>\<^verbatim>\<open>tr_elements[i].xpath('./td')[1]\<close>\<close>

definition second_cell :: "node list \<Rightarrow> nat \<Rightarrow> node result" where
  "second_cell trs i = bindE (py_index trs i) (\<lambda>tr. py_index (sel_child ''td'' tr) 1)"

text \<open>
  \<^verbatim>\<open>e = td.find('.//a'); e.attrib['href'] if e is not None else None\<close>
  (lines 104, 105).
\<close>

definition anchor_href :: "node \<Rightarrow> string option result" where
  "anchor_href td =
     (case find_desc ''a'' td of
        None \<Rightarrow> Inr None
      | Some a \<Rightarrow> bindE (attrib_get a ''href'') (\<lambda>h. Inr (Some h)))"

definition extract_detail :: "node \<Rightarrow> adv_info result" where
  "extract_detail tree =
     bindE (detail_rows tree) (\<lambda>trs.
     bindE (second_cell trs 3) (\<lambda>product_td.
     bindE (second_cell trs 4) (\<lambda>vulnerability_td.
     bindE (second_cell trs 5) (\<lambda>additional_td.
     bindE (anchor_href additional_td) (\<lambda>hrefs.
     bindE (second_cell trs 6) (\<lambda>timeline_td.
     Inr \<lparr>affected_products = cell_text product_td,
          vulnerability_details = cell_text vulnerability_td,
          additional_details = cell_text additional_td,
          additional_details_links = hrefs,
          disclosure_timeline = cell_text timeline_td\<rparr>))))))"

definition retrieve_advisory_info :: "string \<Rightarrow> adv_info py" where
  "retrieve_advisory_info advisory_link =
     bind_py (makerequest advisory_link 3 60) (\<lambda>t.
       case t of
         None \<Rightarrow> raise AttributeError
       | Some tree \<Rightarrow> lift (extract_detail tree))"

section \<open>The record read from rows 3 to 6\<close>

text \<open>
  The second cell of row \<open>i\<close>, the record made of rows 3 to 6, and the shape the
  positional reads need: at least seven rows, and two cells in each row read.
\<close>

abbreviation td2 :: "node list \<Rightarrow> nat \<Rightarrow> node" where
  "td2 trs i \<equiv> sel_child ''td'' (trs ! i) ! 1"

definition detail_of :: "node list \<Rightarrow> string option \<Rightarrow> adv_info" where
  "detail_of trs h =
     \<lparr>affected_products = cell_text (td2 trs 3), vulnerability_details = cell_text (td2 trs 4),
      additional_details = cell_text (td2 trs 5), additional_details_links = h,
      disclosure_timeline = cell_text (td2 trs 6)\<rparr>"

definition well_formed_rows :: "node list \<Rightarrow> nat \<Rightarrow> bool" where
  "well_formed_rows trs n \<longleftrightarrow> n < length trs \<and> (\<forall>i \<in> {3..n}. 2 \<le> length (sel_child ''td'' (trs ! i)))"

section \<open>Fixtures\<close>

text \<open>A detail page: a label cell and a value cell per row, the link in row 5.\<close>

definition detail_tr :: "string \<Rightarrow> node list \<Rightarrow> node" where
  "detail_tr label value =
     Element ''tr'' [] [Element ''td'' [] [Text label], Element ''td'' [] value]"

definition example_detail :: "node list \<Rightarrow> node" where
  "example_detail additional =
     Element ''html'' [] [Element ''section'' [(''class'', ''blueBg'')]
       [Element ''div'' [(''class'', ''contentBlock advisories-details'')]
         [Element ''table'' [(''style'', ''max-width: 100%;'')]
           [detail_tr ''ZDI-ID'' [Text ''ZDI-24-700''], detail_tr ''CVE ID'' [Text ''CVE-2024-0001''],
            detail_tr ''CVSS SCORE'' [Text ''7.8''],
            detail_tr ''AFFECTED PRODUCTS'' [Text ''  Widget Server '', Text ''9'' ],
            detail_tr ''VULNERABILITY DETAILS'' [Text ''A stack overflow.''],
            detail_tr ''ADDITIONAL DETAILS'' additional,
            detail_tr ''DISCLOSURE TIMELINE'' [Text ''2024-03-01 - Reported'']]]]]"

section \<open>Lemmas\<close>

lemma ball_3_6: "(\<forall>i \<in> {3..6::nat}. P i) \<longleftrightarrow> P 3 \<and> P 4 \<and> P 5 \<and> P 6"
proof -
  have "{3..6::nat} = {3, 4, 5, 6}" by (auto simp: set_eq_iff)
  then show ?thesis by simp
qed

lemma ball_3_5: "(\<forall>i \<in> {3..5::nat}. P i) \<longleftrightarrow> P 3 \<and> P 4 \<and> P 5"
proof -
  have "{3..5::nat} = {3, 4, 5}" by (auto simp: set_eq_iff)
  then show ?thesis by simp
qed

lemma second_cell_ok:
  "i < length trs \<Longrightarrow> 2 \<le> length (sel_child ''td'' (trs ! i)) \<Longrightarrow> second_cell trs i = Inr (td2 trs i)"
  by (simp add: second_cell_def)

lemma second_cell_Inr_iff:
  "second_cell trs i = Inr c \<longleftrightarrow> i < length trs \<and> 2 \<le> length (sel_child ''td'' (trs ! i)) \<and> c = td2 trs i"
  by (auto simp: second_cell_def py_index_def bindE_eq_Inr_iff)

lemma anchor_href_None: "find_desc ''a'' td = None \<Longrightarrow> anchor_href td = Inr None"
  by (simp add: anchor_href_def)

lemma anchor_href_KeyError:
  "find_desc ''a'' td = Some a \<Longrightarrow> get_attr a ''href'' = None \<Longrightarrow> anchor_href td = Inl KeyError"
  by (simp add: anchor_href_def attrib_get_def)

lemma retrieve_advisory_info_frame:
  "\<exists>res m evs. m = count_gets url evs \<and> m \<le> 3 \<and> set evs \<subseteq> {Get url ua_headers, Sleep 60, Jitter} \<and>
     (\<forall>w'. same_view w' w url \<longrightarrow> retrieve_advisory_info url w' = (res, emit_get w' url m evs))"
proof -
  obtain res m evs where cnt: "m = count_gets url evs" "m \<le> nat 3"
    and evs: "set evs \<subseteq> {Get url ua_headers, Sleep 60, Jitter}"
    and fr: "\<forall>w'. same_view w' w url \<longrightarrow> makerequest url 3 60 w' = (res, emit_get w' url m evs)"
    using makerequest_frame [where url = url and r = 3 and d = 60 and w = w] by (elim exE conjE) (rule that; assumption)
  let ?res = "case res of Inl e \<Rightarrow> Inl e | Inr None \<Rightarrow> Inl AttributeError | Inr (Some tree) \<Rightarrow> extract_detail tree"
  from fr have "\<forall>w'. same_view w' w url \<longrightarrow> retrieve_advisory_info url w' = (?res, emit_get w' url m evs)"
    by (auto simp: retrieve_advisory_info_def bind_py_apply effect_defs split: sum.splits option.splits)
  with evs cnt show ?thesis
    by auto
qed

lemma second_cell_Inl: "second_cell trs i = Inl e \<Longrightarrow> e = IndexError"
  by (auto simp: second_cell_def py_index_def bindE_eq_Inl_iff split: if_splits)

lemma anchor_href_Inl: "anchor_href td = Inl e \<Longrightarrow> e = KeyError"
  by (auto simp: anchor_href_def attrib_get_def bindE_eq_Inl_iff split: option.splits)

lemma anchor_href_Some:
  "find_desc ''a'' td = Some a \<Longrightarrow> get_attr a ''href'' = Some h \<Longrightarrow> anchor_href td = Inr (Some h)"
  by (simp add: anchor_href_def attrib_get_def)

lemmas detail_eval =
  detail_rows_def example_detail_def detail_tr_def dom_query_defs second_cell_def
  anchor_href_def cell_text_def py_strip_def py_isspace_def detail_of_def well_formed_rows_def

section \<open>Properties of the detail extractor\<close>

text \<open>
  C10: the fields. On a page whose table has at least seven rows with two cells in each
  of rows 3 to 6 and no anchor in row 5's value cell, the extractor returns the stripped
  text of the second cell of rows 3, 4, 5 and 6 and no link.
\<close>

theorem extract_detail_fields:
  assumes "detail_rows tree = Inr trs" "well_formed_rows trs 6"
    and "find_desc ''a'' (td2 trs 5) = None"
  shows "extract_detail tree = Inr (detail_of trs None)"
proof -
  from assms(2) have "second_cell trs i = Inr (td2 trs i)" if "i \<in> {3..6}" for i
    using that by (intro second_cell_ok) (auto simp: well_formed_rows_def)
  then show ?thesis
    using assms(1) anchor_href_None [OF assms(3)]
    by (simp add: extract_detail_def detail_of_def)
qed

theorem extract_detail_fields_witness:
  "extract_detail (example_detail [Text ''See the vendor notice.'']) =
   Inr \<lparr>affected_products = ''Widget Server 9'', vulnerability_details = ''A stack overflow.'',
        additional_details = ''See the vendor notice.'', additional_details_links = None,
        disclosure_timeline = ''2024-03-01 - Reported''\<rparr>"
  using extract_detail_fields [where tree = "example_detail [Text ''See the vendor notice.'']"]
  by (simp add: detail_eval ball_3_6)

text \<open>
  C11: the link of row 5. When row 5's value cell holds an anchor with an \<^verbatim>\<open>href\<close>,
  the record is the same as without it but carries the first anchor's \<^verbatim>\<open>href\<close> as
  its additional-details link.
\<close>

theorem extract_detail_link:
  assumes "detail_rows tree = Inr trs" "well_formed_rows trs 6"
    and "find_desc ''a'' (td2 trs 5) = Some a" "get_attr a ''href'' = Some h"
  shows "extract_detail tree = Inr (detail_of trs (Some h))"
proof -
  from assms(2) have "second_cell trs i = Inr (td2 trs i)" if "i \<in> {3..6}" for i
    using that by (intro second_cell_ok) (auto simp: well_formed_rows_def)
  then show ?thesis
    using assms(1) anchor_href_Some [OF assms(3,4)]
    by (simp add: extract_detail_def detail_of_def)
qed

theorem extract_detail_link_witness:
  "extract_detail (example_detail [Text ''See the '', Element ''a'' [(''href'', ''https://vendor.example/n1'')] [Text ''notice'']]) =
   Inr \<lparr>affected_products = ''Widget Server 9'', vulnerability_details = ''A stack overflow.'',
        additional_details = ''See the notice'', additional_details_links = Some ''https://vendor.example/n1'',
        disclosure_timeline = ''2024-03-01 - Reported''\<rparr>"
  using extract_detail_link
      [where tree = "example_detail [Text ''See the '', Element ''a'' [(''href'', ''https://vendor.example/n1'')] [Text ''notice'']]"
        and a = "Element ''a'' [(''href'', ''https://vendor.example/n1'')] [Text ''notice'']"
        and h = "''https://vendor.example/n1''"]
  by (simp add: detail_eval ball_3_6)

text \<open>
  C21: an anchor without \<^verbatim>\<open>href\<close> loses the advisory. When row 5's value cell holds
  an anchor without an \<^verbatim>\<open>href\<close> attribute, \<^verbatim>\<open>attrib['href']\<close> raises
  \<open>KeyError\<close> and the whole extraction fails, instead of giving a null link.
\<close>

theorem extract_detail_anchor_without_href:
  assumes "detail_rows tree = Inr trs" "well_formed_rows trs 5"
    and "find_desc ''a'' (td2 trs 5) = Some a" "get_attr a ''href'' = None"
  shows "extract_detail tree = Inl KeyError"
proof -
  from assms(2) have "second_cell trs i = Inr (td2 trs i)" if "i \<in> {3..5}" for i
    using that by (intro second_cell_ok) (auto simp: well_formed_rows_def)
  then show ?thesis
    using assms(1) anchor_href_KeyError [OF assms(3,4)]
    by (simp add: extract_detail_def)
qed

theorem extract_detail_anchor_without_href_witness:
  "extract_detail (example_detail [Element ''a'' [(''target'', ''_blank'')] [Text ''notice'']]) = Inl KeyError"
  using extract_detail_anchor_without_href
      [where tree = "example_detail [Element ''a'' [(''target'', ''_blank'')] [Text ''notice'']]"
        and a = "Element ''a'' [(''target'', ''_blank'')] [Text ''notice'']"]
  by (simp add: detail_eval ball_3_5)

text \<open>
  C12: all or nothing. Whenever the extractor returns a record, the page had the full
  structure (the section, the content block, the table, seven rows, two cells in each of
  rows 3 to 6, a usable anchor or none), and every field comes from its fixed row: there
  is no partially filled record.
\<close>

theorem extract_detail_atomic:
  assumes "extract_detail tree = Inr info"
  shows "\<exists>trs h. detail_rows tree = Inr trs \<and> well_formed_rows trs 6 \<and>
    anchor_href (td2 trs 5) = Inr h \<and> info = detail_of trs h"
proof -
  from assms obtain trs c3 c4 c5 h c6 where
    "detail_rows tree = Inr trs" "second_cell trs 3 = Inr c3" "second_cell trs 4 = Inr c4"
    "second_cell trs 5 = Inr c5" "anchor_href c5 = Inr h" "second_cell trs 6 = Inr c6"
    "info = \<lparr>affected_products = cell_text c3, vulnerability_details = cell_text c4,
             additional_details = cell_text c5, additional_details_links = h,
             disclosure_timeline = cell_text c6\<rparr>"
    by (auto simp: extract_detail_def bindE_eq_Inr_iff)
  then show ?thesis
    by (auto simp: second_cell_Inr_iff well_formed_rows_def detail_of_def ball_3_6)
qed

theorem extract_detail_atomic_witness:
  "\<exists>trs h. detail_rows (example_detail [Text ''See the vendor notice.'']) = Inr trs \<and>
     well_formed_rows trs 6 \<and> anchor_href (td2 trs 5) = Inr h \<and>
     \<lparr>affected_products = ''Widget Server 9'', vulnerability_details = ''A stack overflow.'',
      additional_details = ''See the vendor notice.'', additional_details_links = None,
      disclosure_timeline = ''2024-03-01 - Reported''\<rparr> = detail_of trs h"
  using extract_detail_atomic [where tree = "example_detail [Text ''See the vendor notice.'']"
      and info = "\<lparr>affected_products = ''Widget Server 9'', vulnerability_details = ''A stack overflow.'',
      additional_details = ''See the vendor notice.'', additional_details_links = None,
      disclosure_timeline = ''2024-03-01 - Reported''\<rparr>"]
  by (simp add: detail_eval extract_detail_def)

text \<open>
  C13: a short table gives no record. When the detail table has fewer than seven rows, the
  extraction raises \<open>IndexError\<close> (a missing row or cell) or \<open>KeyError\<close> (an anchor
  without \<^verbatim>\<open>href\<close> in row 5 before the missing row 6), never a record.
\<close>

theorem extract_detail_short_table:
  assumes "detail_rows tree = Inr trs" "length trs < 7"
  shows "extract_detail tree \<in> {Inl IndexError, Inl KeyError}"
proof -
  have six: "second_cell trs 6 = Inl IndexError"
    using assms(2) by (simp add: second_cell_def)
  show ?thesis
    using assms(1) six
    by (auto simp: extract_detail_def bindE_def split: sum.splits dest!: second_cell_Inl anchor_href_Inl)
qed

theorem extract_detail_short_table_witness:
  "detail_rows (Element ''section'' [(''class'', ''blueBg'')]
     [Element ''div'' [(''class'', ''contentBlock advisories-details'')]
       [Element ''table'' [(''style'', ''max-width: 100%;'')] [detail_tr ''ZDI-ID'' [Text ''ZDI-24-700'']]]]) =
     Inr [detail_tr ''ZDI-ID'' [Text ''ZDI-24-700'']] \<and>
   extract_detail (Element ''section'' [(''class'', ''blueBg'')]
     [Element ''div'' [(''class'', ''contentBlock advisories-details'')]
       [Element ''table'' [(''style'', ''max-width: 100%;'')] [detail_tr ''ZDI-ID'' [Text ''ZDI-24-700'']]]])
   \<in> {Inl IndexError, Inl KeyError}"
proof -
  have r: "detail_rows (Element ''section'' [(''class'', ''blueBg'')]
     [Element ''div'' [(''class'', ''contentBlock advisories-details'')]
       [Element ''table'' [(''style'', ''max-width: 100%;'')] [detail_tr ''ZDI-ID'' [Text ''ZDI-24-700'']]]]) =
     Inr [detail_tr ''ZDI-ID'' [Text ''ZDI-24-700'']]"
    by (simp add: detail_eval)
  show ?thesis
    using extract_detail_short_table [OF r] r by simp
qed

end
