(* ===== verification/Slack.thy ===== *)
theory Slack
  imports Detail
begin

text \<open>
  The Slack side (lines 117 to 181 of \<^verbatim>\<open>src/zerodaynewsletter.py\<close>):
  \<^verbatim>\<open>create_slack_message\<close> and \<^verbatim>\<open>create_slack_message_for_no_new_cves\<close> build the
  fallback text and the \<^verbatim>\<open>blocks\<close> value (a JSON value; \<^verbatim>\<open>json.dumps\<close> is
  injective, so the value is kept instead of its serialisation), and
  \<^verbatim>\<open>send_slack_message_for_no_new_zero_day\<close> posts the second one, catching only
  \<^verbatim>\<open>SlackApiError\<close>. \<^verbatim>\<open>IMAGE_URL\<close> is \<^verbatim>\<open>os.getenv\<close>'s result: \<open>None\<close> becomes
  JSON \<^verbatim>\<open>null\<close>. Emoji codes are plain text.
\<close>

definition nl :: string where
  "nl = [CHR 0x0A]"

definition image_json :: "string option \<Rightarrow> json" where
  "image_json img = (case img of None \<Rightarrow> JNull | Some u \<Rightarrow> JStr u)"

definition message_blocks :: "string option \<Rightarrow> string \<Rightarrow> json" where
  "message_blocks img txt =
     JList
       [JObj [(''type'', JStr ''section''),
              (''text'', JObj [(''type'', JStr ''mrkdwn''), (''text'', JStr txt)]),
              (''accessory'', JObj [(''type'', JStr ''image''), (''image_url'', image_json img),
                                   (''alt_text'', JStr ''CVE details'')])],
        JObj [(''type'', JStr ''divider'')]]"

definition create_slack_message :: "string option \<Rightarrow> advisory \<Rightarrow> adv_info \<Rightarrow> string \<times> json" where
  "create_slack_message img adv info =
     ('':red_circle: CVE ID: '' @ cve_id adv @ '' - ''
        @ take 75 (vulnerability_details info) @ ''...'',
      message_blocks img
        (''*New Zero Day Vulnerability advisory :red_circle:*'' @ nl @ nl
         @ ''*CVE ID:* '' @ cve_id adv @ nl
         @ ''*CVSS SCORE:* '' @ cvss adv @ nl
         @ ''*AFFECTED VENDOR:* '' @ vendor adv @ nl
         @ ''*AFFECTED PRODUCTS:* '' @ affected_products info @ nl
         @ ''*VULNERABILITY DETAILS:* '' @ vulnerability_details info @ nl
         @ ''*ADDITIONAL DETAILS:* '' @ additional_details info @ nl))"

definition create_slack_message_for_no_new_cves :: "string option \<Rightarrow> string \<times> json" where
  "create_slack_message_for_no_new_cves img =
     ('':large_green_circle: No new Zero Day advisories in the last 24 hours :large_green_circle:'',
      message_blocks img ('':large_green_circle: No new Zero Day advisories in the last 24 hours'' @ nl))"

definition send_slack_message_for_no_new_zero_day :: "unit py" where
  "send_slack_message_for_no_new_zero_day =
     bind_py getenv_image_url (\<lambda>img.
       let (text_summary, message_blocks) = create_slack_message_for_no_new_cves img in
       try_except (chat_post text_summary message_blocks)
         (\<lambda>e. if e = SlackApiError then ret () else raise e))"

section \<open>Properties of the messages\<close>

text \<open>
  C26: the notification summary is bounded. The fallback text is the fixed prefix, the CVE
  id, a separator, at most the first 75 characters of the vulnerability details and an
  ellipsis, however long the details are.
\<close>

theorem summary_length:
  "length (fst (create_slack_message img adv info)) =
     27 + length (cve_id adv) + min 75 (length (vulnerability_details info))"
  by (simp add: create_slack_message_def)


section \<open>Lemmas\<close>

lemma send_no_new_run:
  "send_slack_message_for_no_new_zero_day w =
     (case slack w (posts w) of Post_ok \<Rightarrow> Inr ()
      | Post_raises e \<Rightarrow> if e = SlackApiError then Inr () else Inl e,
      (emit w [Post (channel_id w) (fst (create_slack_message_for_no_new_cves (image_url w)))
                 (snd (create_slack_message_for_no_new_cves (image_url w)))])\<lparr>posts := Suc (posts w)\<rparr>)"
  by (simp add: send_slack_message_for_no_new_zero_day_def getenv_image_url_def bind_py_apply
      try_except_apply effect_defs split: prod.splits post_outcome.splits)

end
