(* ===== verification/Orchestrator.thy ===== *)
theory Orchestrator
  imports Slack
begin

text \<open>
  The orchestrator \<^verbatim>\<open>main\<close> (lines 183 to 204 of \<^verbatim>\<open>src/zerodaynewsletter.py\<close>):
  fetch the listing, wait 60 seconds, then post the "no new advisories" message when the
  list is empty, or else, for each advisory in order, fetch its detail page and post its
  message, every exception of one advisory being caught (\<^verbatim>\<open>except Exception\<close>) so
  that the loop goes on with the next. \<open>process_advisory\<close> is the body of the
  \<^verbatim>\<open>try\<close>, \<open>process_all\<close> the loop. The abstract specification \<open>expected_posts\<close> says
  which messages the loop posts: one per advisory whose detail page yields a record, in
  list order, computed from the world before the loop; \<open>process_all_run\<close> is the
  simulation, under distinct links (each detail page is fetched once).
\<close>

definition process_advisory :: "advisory \<Rightarrow> unit py" where
  "process_advisory advisory =
     bind_py (retrieve_advisory_info (link advisory)) (\<lambda>advisory_information.
       bind_py getenv_image_url (\<lambda>img.
         let (text_summary, message_blocks) = create_slack_message img advisory advisory_information in
         chat_post text_summary message_blocks))"

primrec process_all :: "advisory list \<Rightarrow> unit py" where
  "process_all [] = ret ()"
| "process_all (advisory # rest) =
     bind_py (try_except (process_advisory advisory) (\<lambda>e. ret ())) (\<lambda>_. process_all rest)"

definition main :: "unit py" where
  "main =
     bind_py retrieve_advisories (\<lambda>advisories.
       bind_py (sleep 60) (\<lambda>_.
         if advisories = [] then send_slack_message_for_no_new_zero_day
         else process_all advisories))"

section \<open>The abstract specification of the loop\<close>

text \<open>
  The events of a run that may occur: GETs carry the fixed User-Agent, posts go to the
  configured channel. \<open>detail_outcome\<close>
  is what the detail extractor gives for an advisory in a world, and \<open>expected_posts\<close>
  the posts the loop must make, in order.
\<close>

fun event_ok :: "string option \<Rightarrow> event \<Rightarrow> bool" where
  "event_ok ch (Get _ hdrs) = (hdrs = ua_headers)"
| "event_ok ch (Post c _ _) = (c = ch)"
| "event_ok ch _ = True"

definition detail_outcome :: "world \<Rightarrow> advisory \<Rightarrow> adv_info result" where
  "detail_outcome w a = fst (retrieve_advisory_info (link a) w)"

definition advisory_post :: "world \<Rightarrow> advisory \<Rightarrow> adv_info \<Rightarrow> event" where
  "advisory_post w a info =
     (case create_slack_message (image_url w) a info of (t, b) \<Rightarrow> Post (channel_id w) t b)"

definition expected_posts :: "world \<Rightarrow> advisory list \<Rightarrow> event list" where
  "expected_posts w advs =
     concat (map (\<lambda>a. case detail_outcome w a of Inl _ \<Rightarrow> [] | Inr info \<Rightarrow> [advisory_post w a info]) advs)"

section \<open>Fixtures\<close>

definition example_advisory :: "string \<Rightarrow> advisory" where
  "example_advisory zid =
     \<lparr>zdi_id = zid, zdi_can = ''ZDI-CAN-1'', vendor = ''Acme'', cve_id = ''CVE-2024-0001'', cvss = ''7.8'',
      adv_date = ''2024-06-05'', extra = '''', description = ''Acme Widget overflow'',
      link = ''https://www.zerodayinitiative.com/advisories/'' @ zid @ ''/''\<rparr>"

definition example_world :: world where
  "example_world =
     init_world
       (\<lambda>u n. if u = link (example_advisory ''ZDI-24-002'') then Got (Response 200 ''detail'')
              else Got (Response 404 ''''))
       (\<lambda>_. Post_ok)
       (\<lambda>s. if s = ''detail'' then Inr (example_detail [Text ''See the vendor notice.'']) else Inl ParserError)
       0 (Some ''C0123'') None"

text \<open>A world of one run: the listing page, one detail page, a fixed clock (2024-06-05, noon).\<close>

definition run_world :: "(string \<Rightarrow> nat \<Rightarrow> get_outcome) \<Rightarrow> (nat \<Rightarrow> post_outcome) \<Rightarrow> node list \<Rightarrow> world" where
  "run_world h s rows =
     init_world h s
       (\<lambda>p. if p = ''listing'' then Inr (example_listing rows)
            else if p = ''detail'' then Inr (example_detail [Text ''See the vendor notice.''])
            else Inl ParserError)
       (739041 * day_us + 43200000000) (Some ''C0123'') None"

abbreviation posts_world :: world where
  "posts_world \<equiv> run_world (\<lambda>u n. if u = listing_url then Got (Response 200 ''listing'') else Got (Response 200 ''detail''))
     (\<lambda>_. Post_ok) [example_row ''ZDI-24-700'' ''2024-06-05'']"

section \<open>Lemmas\<close>

lemma fetch_events:
  assumes "set evs \<subseteq> {Get url ua_headers, Sleep s, Jitter}"
  shows "post_events evs = []" "list_all (event_ok ch) evs"
  using assms by (auto simp: post_events_def filter_empty_conv list_all_iff)

lemma process_advisory_step:
  assumes "same_view w' w (link a)" "channel_id w' = channel_id w" "image_url w' = image_url w"
  shows "\<exists>m evs. count_gets (link a) evs \<le> 3 \<and> set evs \<subseteq> {Get (link a) ua_headers, Sleep 60, Jitter} \<and>
    try_except (process_advisory a) (\<lambda>e. ret ()) w' =
      (Inr (), case detail_outcome w a of
                 Inl _ \<Rightarrow> emit_get w' (link a) m evs
               | Inr info \<Rightarrow> (emit_get w' (link a) m (evs @ [advisory_post w a info]))\<lparr>posts := Suc (posts w')\<rparr>)"
proof -
  obtain res m evs where cnt: "m = count_gets (link a) evs" "m \<le> 3"
    and evs: "set evs \<subseteq> {Get (link a) ua_headers, Sleep 60, Jitter}"
    and fr: "\<forall>w''. same_view w'' w (link a) \<longrightarrow>
      retrieve_advisory_info (link a) w'' = (res, emit_get w'' (link a) m evs)"
    using retrieve_advisory_info_frame [where url = "link a" and w = w] by (elim exE conjE) (rule that; assumption)
  have "same_view w w (link a)"
    by (simp add: same_view_def)
  with fr have out: "detail_outcome w a = res"
    by (simp add: detail_outcome_def)
  from fr assms(1) have run: "retrieve_advisory_info (link a) w' = (res, emit_get w' (link a) m evs)"
    by blast
  have "try_except (process_advisory a) (\<lambda>e. ret ()) w' =
      (Inr (), case res of
                 Inl _ \<Rightarrow> emit_get w' (link a) m evs
               | Inr info \<Rightarrow> (emit_get w' (link a) m (evs @ [advisory_post w a info]))\<lparr>posts := Suc (posts w')\<rparr>)"
    using assms(2,3) run
    by (auto simp: process_advisory_def try_except_apply bind_py_apply effect_defs getenv_image_url_def
        advisory_post_def split: sum.splits post_outcome.splits prod.splits)
  with evs out cnt show ?thesis
    by auto
qed

lemma is_post_advisory_post [simp]: "is_post (advisory_post w a info)"
  by (simp add: advisory_post_def split: prod.splits)

lemma requests_advisory_post [simp]: "requests (advisory_post w a info # evs) = requests evs"
  by (simp add: advisory_post_def split: prod.splits)

lemma event_ok_advisory_post [simp]: "event_ok (channel_id w) (advisory_post w a info)"
  by (simp add: advisory_post_def split: prod.splits)

lemma expected_posts_Nil [simp]: "expected_posts w [] = []"
  by (simp add: expected_posts_def)

lemma expected_posts_Cons [simp]:
  "expected_posts w (a # rest) =
     (case detail_outcome w a of Inl _ \<Rightarrow> [] | Inr info \<Rightarrow> [advisory_post w a info]) @ expected_posts w rest"
  by (simp add: expected_posts_def)

text \<open>The simulation: the loop run from any world that answers the advisories' links as
  \<open>w\<close> does.\<close>

lemma process_all_run:
  assumes "distinct (map link advs)" "http w' = http w" "parse_html w' = parse_html w"
    "channel_id w' = channel_id w" "image_url w' = image_url w"
    "\<forall>a\<in>set advs. gets w' (link a) = gets w (link a)"
  shows "fst (process_all advs w') = Inr () \<and>
    (\<exists>evs. trace (snd (process_all advs w')) = trace w' @ evs \<and> list_all (event_ok (channel_id w)) evs \<and>
       post_events evs = expected_posts w advs)"
  using assms
proof (induction advs arbitrary: w')
  case Nil
  then show ?case by (simp add: effect_defs post_events_def)
next
  case (Cons a rest)
  have "same_view w' w (link a)"
    using Cons.prems by (simp add: same_view_def)
  then obtain m evs where evs: "set evs \<subseteq> {Get (link a) ua_headers, Sleep 60, Jitter}"
    and step: "try_except (process_advisory a) (\<lambda>e. ret ()) w' =
      (Inr (), case detail_outcome w a of
                 Inl _ \<Rightarrow> emit_get w' (link a) m evs
               | Inr info \<Rightarrow> (emit_get w' (link a) m (evs @ [advisory_post w a info]))\<lparr>posts := Suc (posts w')\<rparr>)"
    using process_advisory_step Cons.prems(4,5) by blast
  define w1 where "w1 = snd (try_except (process_advisory a) (\<lambda>e. ret ()) w')"
  define evs1 where "evs1 = evs @ (case detail_outcome w a of Inl _ \<Rightarrow> [] | Inr info \<Rightarrow> [advisory_post w a info])"
  have run: "process_all (a # rest) w' = process_all rest w1"
    using step by (simp add: w1_def bind_py_apply)
  have other: "\<forall>b\<in>set rest. link b \<noteq> link a"
    using Cons.prems(1) by (auto simp: image_iff)
  have w1: "http w1 = http w" "parse_html w1 = parse_html w" "channel_id w1 = channel_id w"
      "image_url w1 = image_url w" "\<forall>b\<in>set rest. gets w1 (link b) = gets w (link b)"
      "trace w1 = trace w' @ evs1"
    using step Cons.prems other by (auto simp: w1_def evs1_def split: sum.splits)
  have ev1: "list_all (event_ok (channel_id w)) evs1" "post_events evs1 =
      (case detail_outcome w a of Inl _ \<Rightarrow> [] | Inr info \<Rightarrow> [advisory_post w a info])"
    using fetch_events [OF evs] by (auto simp: evs1_def split: sum.splits)
  obtain evs2 where ih: "fst (process_all rest w1) = Inr ()"
      "trace (snd (process_all rest w1)) = trace w1 @ evs2" "list_all (event_ok (channel_id w)) evs2"
      "post_events evs2 = expected_posts w rest"
    using Cons.IH [of w1] Cons.prems(1) w1 by auto
  show ?case
    using ih ev1 w1(6) run by (intro conjI exI [of _ "evs1 @ evs2"]) simp_all
qed

text \<open>The events of the loop in any world, distinct links or not.\<close>

lemma process_all_events:
  "\<exists>evs. trace (snd (process_all advs w)) = trace w @ evs \<and> list_all (event_ok (channel_id w)) evs \<and>
     requests evs \<le> 3 * length advs \<and> channel_id (snd (process_all advs w)) = channel_id w"
proof (induction advs arbitrary: w)
  case Nil
  then show ?case by (simp add: effect_defs)
next
  case (Cons a rest)
  have "same_view w w (link a)"
    by (simp add: same_view_def)
  then obtain m evs where cnt: "count_gets (link a) evs \<le> 3"
    and evs: "set evs \<subseteq> {Get (link a) ua_headers, Sleep 60, Jitter}"
    and step: "try_except (process_advisory a) (\<lambda>e. ret ()) w =
      (Inr (), case detail_outcome w a of
                 Inl _ \<Rightarrow> emit_get w (link a) m evs
               | Inr info \<Rightarrow> (emit_get w (link a) m (evs @ [advisory_post w a info]))\<lparr>posts := Suc (posts w)\<rparr>)"
    using process_advisory_step by blast
  define w1 where "w1 = snd (try_except (process_advisory a) (\<lambda>e. ret ()) w)"
  have run: "process_all (a # rest) w = process_all rest w1"
    using step by (simp add: w1_def bind_py_apply)
  obtain evs1 where w1: "trace w1 = trace w @ evs1" "list_all (event_ok (channel_id w)) evs1"
      "requests evs1 \<le> 3" "channel_id w1 = channel_id w"
    using step fetch_events(2) [OF evs, of "channel_id w"] requests_fetch [OF evs] cnt
    by (cases "detail_outcome w a") (auto simp: w1_def)
  obtain evs2 where "trace (snd (process_all rest w1)) = trace w1 @ evs2"
      "list_all (event_ok (channel_id w1)) evs2" "requests evs2 \<le> 3 * length rest"
      "channel_id (snd (process_all rest w1)) = channel_id w1"
    using Cons.IH by blast
  with w1 run show ?case
    by (intro exI [of _ "evs1 @ evs2"]) simp
qed

lemmas run_eval =
  run_world_def init_world_def retrieve_advisories_def makerequest_def upto.simps bind_py_apply
  effect_defs extract_recent_advisories_def fixture_eval dt_sub_def dt_max_def day_us_def

text \<open>
  A run with advisories: after the listing, the sleep, then the loop. The posts of the
  specification are posts of listed advisories.
\<close>

lemma main_run_nonempty:
  assumes "retrieve_advisories w = (Inr advs, w1)" "advs \<noteq> []"
  shows "main w = process_all advs (emit w1 [Sleep 60])"
  using assms by (simp add: main_def bind_py_apply effect_defs)

lemma expected_posts_advisories:
  "e \<in> set (expected_posts w advs) \<Longrightarrow> \<exists>a\<in>set advs. \<exists>info. e = advisory_post w a info"
  by (induction advs) (auto split: sum.splits)

lemma expected_posts_length:
  "\<forall>a\<in>set advs. \<exists>info. detail_outcome w a = Inr info \<Longrightarrow> length (expected_posts w advs) = length advs"
  by (induction advs) (auto split: sum.splits)

lemma example_world_details:
  "detail_outcome example_world (example_advisory ''ZDI-24-001'') = Inl AttributeError"
  "detail_outcome example_world (example_advisory ''ZDI-24-002'') =
     Inr \<lparr>affected_products = ''Widget Server 9'', vulnerability_details = ''A stack overflow.'',
         additional_details = ''See the vendor notice.'', additional_details_links = None,
         disclosure_timeline = ''2024-03-01 - Reported''\<rparr>"
  by (simp_all add: example_advisory_def example_world_def init_world_def detail_outcome_def
      retrieve_advisory_info_def makerequest_def upto.simps bind_py_apply effect_defs extract_detail_def
      detail_eval ball_3_6)

lemma posts_world_listing:
  "retrieve_advisories posts_world =
     (Inr [mk_advisory (row_columns (example_row ''ZDI-24-700'' ''2024-06-05''))],
      emit_get posts_world listing_url 1 [Get listing_url ua_headers])"
  by (simp add: run_eval row_eligible_def midnight_def)

section \<open>Properties of the orchestrator\<close>

text \<open>
  C1: the loop refines its specification. For advisories with distinct links, the loop
  never raises, and the messages it posts are exactly one per advisory whose detail page
  yields a record, in the order of the list: an advisory whose detail fetch, parse or post
  fails is skipped and does not stop the others.
\<close>

theorem process_all_refines:
  assumes "distinct (map link advs)"
  shows "fst (process_all advs w) = Inr () \<and>
    post_events (trace (snd (process_all advs w))) = post_events (trace w) @ expected_posts w advs"
  using process_all_run [OF assms, where w' = w and w = w] by auto

theorem process_all_refines_witness:
  "distinct (map link [example_advisory ''ZDI-24-001'', example_advisory ''ZDI-24-002'']) \<and>
   fst (process_all [example_advisory ''ZDI-24-001'', example_advisory ''ZDI-24-002''] example_world) = Inr () \<and>
   post_events (trace (snd (process_all [example_advisory ''ZDI-24-001'', example_advisory ''ZDI-24-002''] example_world))) =
     [advisory_post example_world (example_advisory ''ZDI-24-002'')
        \<lparr>affected_products = ''Widget Server 9'', vulnerability_details = ''A stack overflow.'',
         additional_details = ''See the vendor notice.'', additional_details_links = None,
         disclosure_timeline = ''2024-03-01 - Reported''\<rparr>]"
  using process_all_refines [of "[example_advisory ''ZDI-24-001'', example_advisory ''ZDI-24-002'']" example_world]
    example_world_details
  by (simp add: example_advisory_def example_world_def init_world_def del: process_all.simps)

text \<open>
  C16: every advisory is announced. For advisories with distinct links whose detail
  pages all yield a record, the loop posts exactly one message per advisory (spec: N
  eligible rows with successful detail fetches give N payloads).
\<close>

theorem process_all_posts_every_advisory:
  assumes "distinct (map link advs)" "\<forall>a\<in>set advs. \<exists>info. detail_outcome w a = Inr info"
  shows "length (post_events (trace (snd (process_all advs w)))) = length (post_events (trace w)) + length advs"
  using process_all_run [OF assms(1), where w' = w and w = w] expected_posts_length [OF assms(2)] by auto

theorem process_all_posts_every_advisory_witness:
  "distinct (map link [example_advisory ''ZDI-24-002'']) \<and>
   (\<exists>info. detail_outcome example_world (example_advisory ''ZDI-24-002'') = Inr info) \<and>
   length (post_events (trace (snd (process_all [example_advisory ''ZDI-24-002''] example_world)))) = 1"
  using process_all_posts_every_advisory [where advs = "[example_advisory ''ZDI-24-002'']" and w = example_world]
    example_world_details
  by (simp add: example_world_def init_world_def del: process_all.simps)

text \<open>
  C2: a run with new advisories. When the listing yields a non-empty list of advisories
  with distinct links, \<^verbatim>\<open>main\<close> returns normally, sleeps 60 seconds before anything
  else, and then posts exactly the messages of the specification, in order.
\<close>

theorem main_posts:
  assumes "retrieve_advisories w = (Inr advs, w1)" "advs \<noteq> []" "distinct (map link advs)"
  shows "fst (main w) = Inr () \<and>
    (\<exists>evs. trace (snd (main w)) = trace w1 @ Sleep 60 # evs \<and> post_events evs = expected_posts w1 advs)"
  using process_all_run [OF assms(3), where w' = "emit w1 [Sleep 60]" and w = w1]
    main_run_nonempty [OF assms(1,2)] by auto

theorem main_posts_witness:
  "retrieve_advisories posts_world =
     (Inr [mk_advisory (row_columns (example_row ''ZDI-24-700'' ''2024-06-05''))],
      emit_get posts_world listing_url 1 [Get listing_url ua_headers]) \<and>
   link (mk_advisory (row_columns (example_row ''ZDI-24-700'' ''2024-06-05''))) = ''https://www.zerodayinitiative.comNone'' \<and>
   fst (main posts_world) = Inr () \<and>
   post_events (trace (snd (main posts_world))) =
     [advisory_post (emit_get posts_world listing_url 1 [Get listing_url ua_headers])
        (mk_advisory (row_columns (example_row ''ZDI-24-700'' ''2024-06-05'')))
        \<lparr>affected_products = ''Widget Server 9'', vulnerability_details = ''A stack overflow.'',
         additional_details = ''See the vendor notice.'', additional_details_links = None,
         disclosure_timeline = ''2024-03-01 - Reported''\<rparr>]"
proof -
  note r = posts_world_listing
  have l: "link (mk_advisory (row_columns (example_row ''ZDI-24-700'' ''2024-06-05''))) = ''https://www.zerodayinitiative.comNone''"
    by (simp add: mk_advisory_def row_link_def site_origin_def fixture_eval)
  have d: "detail_outcome (emit_get posts_world listing_url 1 [Get listing_url ua_headers])
      (mk_advisory (row_columns (example_row ''ZDI-24-700'' ''2024-06-05''))) =
    Inr \<lparr>affected_products = ''Widget Server 9'', vulnerability_details = ''A stack overflow.'',
         additional_details = ''See the vendor notice.'', additional_details_links = None,
         disclosure_timeline = ''2024-03-01 - Reported''\<rparr>"
    unfolding l detail_outcome_def
    by (simp add: run_world_def init_world_def listing_url_def retrieve_advisory_info_def makerequest_def upto.simps
        bind_py_apply effect_defs extract_detail_def detail_eval ball_3_6)
  show ?thesis
    using main_posts [OF r] r l d by (auto simp: run_world_def init_world_def)
qed

text \<open>
  C14: a run without new advisories. When the listing yields no advisory, \<^verbatim>\<open>main\<close>
  sleeps 60 seconds and posts the "no new advisories" message once; a
  \<^verbatim>\<open>SlackApiError\<close> of that post is swallowed, any other exception escapes.
\<close>

theorem main_no_new_advisories:
  assumes "retrieve_advisories w = (Inr [], w1)"
  shows "fst (main w) =
      (case slack w1 (posts w1) of Post_ok \<Rightarrow> Inr ()
       | Post_raises e \<Rightarrow> if e = SlackApiError then Inr () else Inl e) \<and>
    trace (snd (main w)) = trace w1 @
      [Sleep 60, Post (channel_id w1) (fst (create_slack_message_for_no_new_cves (image_url w1)))
                   (snd (create_slack_message_for_no_new_cves (image_url w1)))]"
  using assms by (simp add: main_def bind_py_apply effect_defs send_no_new_run split: post_outcome.splits)

theorem main_no_new_advisories_witness:
  "retrieve_advisories (run_world (\<lambda>u n. Got (Response 200 ''listing'')) (\<lambda>_. Post_raises SlackApiError) []) =
     (Inr [], emit_get (run_world (\<lambda>u n. Got (Response 200 ''listing'')) (\<lambda>_. Post_raises SlackApiError) [])
                listing_url 1 [Get listing_url ua_headers]) \<and>
   fst (main (run_world (\<lambda>u n. Got (Response 200 ''listing'')) (\<lambda>_. Post_raises SlackApiError) [])) = Inr () \<and>
   trace (snd (main (run_world (\<lambda>u n. Got (Response 200 ''listing'')) (\<lambda>_. Post_raises SlackApiError) []))) =
     [Get listing_url ua_headers, Sleep 60,
      Post (Some ''C0123'') (fst (create_slack_message_for_no_new_cves None))
        (snd (create_slack_message_for_no_new_cves None))]"
proof -
  have r: "retrieve_advisories (run_world (\<lambda>u n. Got (Response 200 ''listing'')) (\<lambda>_. Post_raises SlackApiError) []) =
     (Inr [], emit_get (run_world (\<lambda>u n. Got (Response 200 ''listing'')) (\<lambda>_. Post_raises SlackApiError) [])
                listing_url 1 [Get listing_url ua_headers])"
    by (simp add: run_eval)
  show ?thesis
    using main_no_new_advisories [OF r] r by (simp add: run_world_def init_world_def)
qed

text \<open>
  C15: a failed listing ends the run. When \<^verbatim>\<open>retrieve_advisories\<close> raises (for
  instance \<^verbatim>\<open>AttributeError\<close> on \<^verbatim>\<open>None\<close> after a rejected request), \<^verbatim>\<open>main\<close>
  raises the same exception at once: no sleep, no post.
\<close>

theorem main_listing_failure:
  assumes "fst (retrieve_advisories w) = Inl e"
  shows "main w = (Inl e, snd (retrieve_advisories w))"
  using assms by (cases "retrieve_advisories w") (simp add: main_def bind_py_apply)

theorem main_listing_failure_witness:
  "fst (retrieve_advisories (run_world (\<lambda>u n. Got (Response 503 '''')) (\<lambda>_. Post_ok) [])) = Inl AttributeError \<and>
   main (run_world (\<lambda>u n. Got (Response 503 '''')) (\<lambda>_. Post_ok) []) =
     (Inl AttributeError,
      emit_get (run_world (\<lambda>u n. Got (Response 503 '''')) (\<lambda>_. Post_ok) []) listing_url 1 [Get listing_url ua_headers])"
proof -
  have r: "retrieve_advisories (run_world (\<lambda>u n. Got (Response 503 '''')) (\<lambda>_. Post_ok) []) =
     (Inl AttributeError,
      emit_get (run_world (\<lambda>u n. Got (Response 503 '''')) (\<lambda>_. Post_ok) []) listing_url 1 [Get listing_url ua_headers])"
    by (simp add: run_eval)
  then show ?thesis
    using main_listing_failure [of "run_world (\<lambda>u n. Got (Response 503 '''')) (\<lambda>_. Post_ok) []" AttributeError]
    by (simp del: retrieve_advisories_def)
qed

text \<open>
  C17: what a run does to the outside world. Whatever the network, the parser, the clock and
  Slack answer, every request of a run carries the fixed User-Agent and every message of a
  run goes to the configured channel: the run only appends GETs with that header, sleeps,
  courtesy delays and posts to \<^verbatim>\<open>CHANNEL_ID\<close> to the trace.
\<close>

theorem run_events_ok:
  "\<exists>evs. trace (snd (main w)) = trace w @ evs \<and> list_all (event_ok (channel_id w)) evs"
proof -
  obtain res m evs where evs: "set evs \<subseteq> {Get listing_url ua_headers, Sleep 60, Jitter}"
    and r: "retrieve_advisories w = (res, emit_get w listing_url m evs)"
    using retrieve_advisories_run by blast
  define w1 where "w1 = emit_get w listing_url m (evs @ [Sleep 60])"
  have ok: "list_all (event_ok (channel_id w)) (evs @ [Sleep 60])"
    using fetch_events(2) [OF evs] by simp
  show ?thesis
  proof (cases res)
    case (Inl e)
    then show ?thesis
      using r fetch_events(2) [OF evs] by (simp add: main_def bind_py_apply)
  next
    case (Inr advs)
    then have m: "main w = (if advs = [] then send_slack_message_for_no_new_zero_day else process_all advs) w1"
      using r by (simp add: main_def bind_py_apply effect_defs w1_def)
    show ?thesis
    proof (cases "advs = []")
      case True
      then show ?thesis
        using m ok by (simp add: send_no_new_run w1_def)
    next
      case False
      obtain evs2 where "trace (snd (process_all advs w1)) = trace w1 @ evs2"
        "list_all (event_ok (channel_id w1)) evs2"
        using process_all_events by blast
      then show ?thesis
        using m ok False by (intro exI [of _ "evs @ Sleep 60 # evs2"]) (simp add: w1_def)
    qed
  qed
qed

text \<open>
  C18: a run is polite. Whatever the network, the parser and Slack answer, a run of
  \<^verbatim>\<open>main\<close> makes at most three requests for the listing and three per listed
  advisory: at most \<open>3 (N + 1)\<close> requests for \<open>N\<close> advisories, and three when the
  listing fails.
\<close>

theorem run_requests_bounded:
  "\<exists>evs. trace (snd (main w)) = trace w @ evs \<and>
     requests evs \<le> 3 * Suc (case fst (retrieve_advisories w) of Inl _ \<Rightarrow> 0 | Inr advs \<Rightarrow> length advs)"
proof -
  obtain res m evs where cnt: "count_gets listing_url evs \<le> 3"
    and evs: "set evs \<subseteq> {Get listing_url ua_headers, Sleep 60, Jitter}"
    and r: "retrieve_advisories w = (res, emit_get w listing_url m evs)"
    using retrieve_advisories_run by blast
  define w1 where "w1 = emit_get w listing_url m (evs @ [Sleep 60])"
  have req: "requests (evs @ [Sleep 60]) \<le> 3"
    using requests_fetch [OF evs] cnt by simp
  show ?thesis
  proof (cases res)
    case (Inl e)
    then show ?thesis
      using r requests_fetch [OF evs] cnt by (simp add: main_def bind_py_apply)
  next
    case (Inr advs)
    then have m: "main w = (if advs = [] then send_slack_message_for_no_new_zero_day else process_all advs) w1"
      using r by (simp add: main_def bind_py_apply effect_defs w1_def)
    show ?thesis
    proof (cases "advs = []")
      case True
      then show ?thesis
        using m req r Inr by (simp add: send_no_new_run w1_def)
    next
      case False
      obtain evs2 where "trace (snd (process_all advs w1)) = trace w1 @ evs2" "requests evs2 \<le> 3 * length advs"
        using process_all_events by blast
      then show ?thesis
        using m req r Inr False by (intro exI [of _ "evs @ Sleep 60 # evs2"]) (simp add: w1_def)
    qed
  qed
qed

end
