(* ===== verification/Spec2Isabelle.thy ===== *)
theory Spec2Isabelle
  imports Orchestrator
begin

text \<open>
  \<^bold>\<open>A verified model of the zero-day advisory newsletter\<close>
  (\<^verbatim>\<open>src/zerodaynewsletter.py\<close>).

  \<^bold>\<open>The program.\<close> One run of the script fetches the public advisory listing of the
  Zero Day Initiative, keeps the rows published in the last 24 hours, fetches each kept
  advisory's detail page, and posts one Slack message per advisory, or one "no new
  advisories" message. Its parts, leaves first:
  \<^item> the fetcher \<^verbatim>\<open>makerequest\<close> (lines 22 to 51): a GET with a fixed User-Agent,
    retried with a fixed back-off after a transport error, terminal on any other status
    than 200, the body parsed by lxml;
  \<^item> the listing extractor \<^verbatim>\<open>retrieve_advisories\<close> (lines 53 to 83): positional
    XPath queries over the listing table, a date filter against
    \<^verbatim>\<open>now - timedelta(hours=24)\<close>, one dictionary per kept row;
  \<^item> the detail extractor \<^verbatim>\<open>retrieve_advisory_info\<close> (lines 85 to 114): rows 3 to 6 of
    the detail table, their second cells' text, and the link in row 5;
  \<^item> the Slack messages \<^verbatim>\<open>create_slack_message\<close>,
    \<^verbatim>\<open>create_slack_message_for_no_new_cves\<close> and the sender
    \<^verbatim>\<open>send_slack_message_for_no_new_zero_day\<close> (lines 117 to 181);
  \<^item> the orchestrator \<^verbatim>\<open>main\<close> (lines 183 to 204), which catches every exception of one
    advisory and goes on with the next.

  \<^bold>\<open>The library.\<close>
  \<^item> \<open>Prelude\<close>: the exceptions (\<open>exc\<close>), results \<open>exc + 'a\<close> and their bind
    \<open>bindE\<close>, Python indexing \<open>py_index\<close> (IndexError out of range),
    \<^verbatim>\<open>str.strip\<close> (\<open>py_strip\<close>), substring test (\<open>py_contains\<close>), the
    f-string rendering of \<^verbatim>\<open>None\<close> (\<open>py_fmt_opt\<close>).
  \<^item> \<open>Dom\<close>: the lxml tree (\<open>node\<close>) and the XPath steps the script uses
    (\<open>sel_all\<close>, \<open>sel_desc\<close>, \<open>sel_child\<close>, \<open>desc_hrefs\<close>, \<open>find_desc\<close>,
    \<open>attrib_get\<close>, \<open>text_content\<close>), in document order.
  \<^item> \<open>Dates\<close>: \<^verbatim>\<open>datetime.strptime(s, '%Y-%m-%d')\<close> as CPython's regular
    expression matches it (\<open>strptime_ymd\<close>), the calendar checks, datetimes as
    microseconds (\<open>midnight\<close>, \<open>dt_sub\<close> with its OverflowError), and
    \<open>date_iso\<close> for the round trip.
  \<^item> \<open>World\<close>: the world record (network answers per URL and attempt, Slack answers
    per post, the lxml parser, the clock, the environment variables, counters and the
    trace of effects), computations \<open>'a py = world \<Rightarrow> 'a result \<times> world\<close> with
    \<open>ret\<close>, \<open>raise\<close>, \<open>bind_py\<close>, \<open>try_except\<close>, the effects \<open>http_get\<close>,
    \<open>sleep\<close>, \<open>jitter\<close>, \<open>html_fromstring\<close>, \<open>datetime_now\<close>, \<open>chat_post\<close>,
    \<open>getenv_image_url\<close>; counts of the events of a trace (\<open>post_events\<close>,
    \<open>count_gets\<close>, \<open>requests\<close>).
  \<^item> \<open>Fetcher\<close> (lines 22 to 51): \<open>makerequest\<close> as the recursion \<open>mr_loop\<close> over
    \<open>[0..retries - 1]\<close>; its locality (\<open>mr_loop_frame\<close>: result and effects depend
    only on the answers to its URL).
  \<^item> \<open>Listing\<close> (lines 53 to 83): \<open>listing_rows\<close> (the four positional steps),
    \<open>scan_rows\<close> (the row loop with its accumulator), \<open>extract_recent_advisories\<close>,
    \<open>retrieve_advisories\<close>; the reference \<open>spec_scan\<close> written with
    \<open>filter\<close> and \<open>map\<close>.
  \<^item> \<open>Detail\<close> (lines 85 to 114): \<open>detail_rows\<close>, \<open>second_cell\<close>,
    \<open>anchor_href\<close>, \<open>extract_detail\<close>, \<open>retrieve_advisory_info\<close>.
  \<^item> \<open>Slack\<close> (lines 117 to 181): both message builders, with \<^verbatim>\<open>blocks\<close> as a JSON
    value, and the "no new advisories" sender with its \<^verbatim>\<open>except SlackApiError\<close>.
  \<^item> \<open>Orchestrator\<close> (lines 183 to 204): \<open>process_advisory\<close> (the body of the
    \<^verbatim>\<open>try\<close>), \<open>process_all\<close> (the loop), \<open>main\<close>; the abstract specification
    \<open>expected_posts\<close> and the simulation \<open>process_all_run\<close>.
  \<^item> This theory: the properties of a whole run that need several components.

  \<^bold>\<open>What is proved.\<close>
  \<^item> The orchestrator refines its specification: for distinct links the loop never
    raises and posts one message per advisory whose detail page yields a record, in
    order; a run with advisories sleeps first, then posts exactly these; a run without
    advisories posts the "no new" message once (only \<^verbatim>\<open>SlackApiError\<close> is
    swallowed); a failed listing ends the run with no sleep and no post; every advisory
    is announced when all detail pages succeed; every GET of a run carries the fixed
    User-Agent and every post goes to \<^verbatim>\<open>CHANNEL_ID\<close>; a run makes at most
    \<open>3 (N + 1)\<close> requests for \<open>N\<close> listed advisories.
  \<^item> Across components: a run not at midnight announces only advisories dated on its
    own day or later.
  \<^item> The listing: the row loop equals the reference \<open>filter\<close>/\<open>map\<close> definition;
    off midnight the 24-hour window keeps exactly the rows dated today or later (a
    finding: yesterday's advisories are lost); one bad date aborts the listing; rows of
    the wrong shape are ignored; a page without the expected section raises.
  \<^item> The detail page: the fields come from rows 3 to 6, the link from the first
    anchor of row 5; the extraction is all or nothing; a short table and an anchor
    without \<^verbatim>\<open>href\<close> raise.
  \<^item> The fetcher: exact result and trace after \<open>k\<close> transport failures and a
    success, after exhaustion, after a rejected status, after a parse error (which
    escapes); in every world at most \<open>retries\<close> requests.
  \<^item> The dates: \<open>strptime_ymd\<close> inverts \<open>date_iso\<close> on every valid date, also
    accepts the unpadded form (\<^verbatim>\<open>2024-6-5\<close>), and is sound: a date it returns is
    valid and the whole input is a spelling of that date (\<open>month_spellings\<close>,
    \<open>day_spellings\<close>), proved from one soundness lemma per regular-expression piece.
  \<^item> The Slack summary has length \<open>27 + |cve| + min 75 |details|\<close>.

  \<^bold>\<open>Bounds and fuel.\<close> No fuel is needed: every loop of the script is structural
  recursion over a finite list (\<^verbatim>\<open>range(retries)\<close>, the rows, the advisories), so
  every function of the model is total and every run ends. The refinement of the loop
  assumes distinct advisory links: the world answers per URL and per attempt, and two
  advisories with the same link would see different attempts of the same page.

  \<^bold>\<open>Not modelled.\<close> Logging (lines 13 to 16 and every \<^verbatim>\<open>logger\<close> call): it has no
  effect the program depends on. The libraries the script calls (requests, lxml's HTML
  parser, slack_sdk, json, random) are parameters of the world: their answers are given,
  not computed; \<^verbatim>\<open>json.dumps\<close> is taken as injective, so the blocks are kept as a
  JSON value. The random courtesy delay is an event without its duration.
  \<^verbatim>\<open>SLACK_API_KEY\<close> and \<^verbatim>\<open>WebClient(token=...)\<close> only configure the client,
  whose answers the world gives.
\<close>

section \<open>Properties of a whole run\<close>

text \<open>
  C5: no stale advisory is announced. In a run that starts with an empty trace, is not at
  midnight, and whose listing yields advisories with distinct links, every message posted
  is the message of a listed advisory whose date cell parses to the run's calendar day or
  a later day. The listing's filter (\<open>Listing\<close>) and the loop (\<open>Orchestrator\<close>)
  together guarantee it.
\<close>

theorem run_posts_only_current_advisories:
  assumes "trace w = []" "retrieve_advisories w = (Inr advs, w1)" "advs \<noteq> []"
    and "distinct (map link advs)"
    and "0 < clock w mod day_us" "day_us \<le> clock w" "clock w < dt_max"
  shows "\<forall>e\<in>set (post_events (trace (snd (main w)))). \<exists>a\<in>set advs. \<exists>info d.
    e = advisory_post w1 a info \<and> strptime_ymd (adv_date a) = Inr d \<and> today_ord (clock w) \<le> int (ymd2ord d)"
proof -
  obtain res m evs where evs: "set evs \<subseteq> {Get listing_url ua_headers, Sleep 60, Jitter}"
    and "retrieve_advisories w = (res, emit_get w listing_url m evs)"
    using retrieve_advisories_run by blast
  with assms(1,2) have t1: "post_events (trace w1) = []"
    using fetch_events(1) [OF evs] by auto
  obtain evs2 where "trace (snd (process_all advs (emit w1 [Sleep 60]))) = trace w1 @ Sleep 60 # evs2"
      "post_events evs2 = expected_posts w1 advs"
    using process_all_run [OF assms(4), where w' = "emit w1 [Sleep 60]" and w = w1] by auto
  with t1 main_run_nonempty [OF assms(2,3)]
  have posts: "post_events (trace (snd (main w))) = expected_posts w1 advs"
    by simp
  obtain tree where "extract_recent_advisories (clock w) tree = Inr advs"
    using retrieve_advisories_extract [OF assms(2)] by blast
  from extract_recent_advisories_dated [OF this assms(5-7)] posts show ?thesis
    by (fastforce dest: expected_posts_advisories)
qed

theorem run_posts_only_current_advisories_witness:
  "trace posts_world = [] \<and>
   retrieve_advisories posts_world =
     (Inr [mk_advisory (row_columns (example_row ''ZDI-24-700'' ''2024-06-05''))],
      emit_get posts_world listing_url 1 [Get listing_url ua_headers]) \<and>
   distinct (map link [mk_advisory (row_columns (example_row ''ZDI-24-700'' ''2024-06-05''))]) \<and>
   0 < clock posts_world mod day_us \<and> day_us \<le> clock posts_world \<and> clock posts_world < dt_max \<and>
   list_all (\<lambda>e. \<exists>info d.
        e = advisory_post (emit_get posts_world listing_url 1 [Get listing_url ua_headers])
              (mk_advisory (row_columns (example_row ''ZDI-24-700'' ''2024-06-05''))) info \<and>
        strptime_ymd (adv_date (mk_advisory (row_columns (example_row ''ZDI-24-700'' ''2024-06-05'')))) = Inr d \<and>
        today_ord (clock posts_world) \<le> int (ymd2ord d))
     (post_events (trace (snd (main posts_world))))"
proof -
  have c: "trace posts_world = []" "0 < clock posts_world mod day_us" "day_us \<le> clock posts_world"
    "clock posts_world < dt_max"
    by (simp_all add: run_world_def init_world_def day_us_def dt_max_def)
  show ?thesis
    using run_posts_only_current_advisories [OF c(1) posts_world_listing _ _ c(2-4)] c posts_world_listing
    by (simp add: list_all_iff)
qed

end
